theory Spec2Isabelle
  imports Complex_Main
begin

section \<open>Numbers and coordinates\<close>

text \<open>
  The simulator computes on JavaScript numbers. They are modelled as mathematical reals:
  rounding is not represented, so a result that exists only through rounding (the
  haversine term above 1) is outside the model. Where a value of the program can be \<open>undefined\<close> or
  \<open>NaN\<close> (the client socket utility's \<open>progress\<close> field) the type \<open>jsnum\<close> below
  is used instead.
\<close>

record coord =
  latitude :: real
  longitude :: real

text \<open>\<open>Math.atan2(y, x)\<close> on reals (signed zeros are not represented).\<close>

definition atan2 :: "real \<Rightarrow> real \<Rightarrow> real" where
  "atan2 y x =
     (if 0 < x then arctan (y / x)
      else if x < 0 then (if 0 \<le> y then arctan (y / x) + pi else arctan (y / x) - pi)
      else if 0 < y then pi / 2
      else if y < 0 then - (pi / 2)
      else 0)"

text \<open>The remainder operator \<open>%\<close> of JavaScript: the quotient is truncated towards zero.\<close>

definition trunc :: "real \<Rightarrow> int" where
  "trunc r = (if 0 \<le> r then \<lfloor>r\<rfloor> else \<lceil>r\<rceil>)"

definition js_rem :: "real \<Rightarrow> real \<Rightarrow> real" where
  "js_rem x m = x - m * real_of_int (trunc (x / m))"

section \<open>Geodesy helpers (utils/locationUtils)\<close>

definition toRad :: "real \<Rightarrow> real" where
  "toRad degrees = degrees * pi / 180"

text \<open>
  The haversine term \<open>a\<close> of \<open>calculateDistance\<close>, in exact arithmetic. The source
  computes it in doubles and returns \<open>6371 * 2 * Math.atan2(Math.sqrt(a), Math.sqrt(1 - a))\<close>.
\<close>

definition haversine_a :: "coord \<Rightarrow> coord \<Rightarrow> real" where
  "haversine_a coord1 coord2 =
     (let dLat = toRad (latitude coord2 - latitude coord1);
          dLon = toRad (longitude coord2 - longitude coord1)
      in sin (dLat / 2) * sin (dLat / 2) +
         cos (toRad (latitude coord1)) * cos (toRad (latitude coord2)) *
         sin (dLon / 2) * sin (dLon / 2))"

text \<open>
  \<open>calculateBearing(start, end)\<close>: a missing argument gives 0, otherwise the forward
  azimuth in degrees, normalised by \<open>(bearing + 360) % 360\<close>.
\<close>

definition calculateBearing :: "coord option \<Rightarrow> coord option \<Rightarrow> real" where
  "calculateBearing s e =
     (case (s, e) of
        (Some start, Some end) \<Rightarrow>
          (let startLat = toRad (latitude start);
               startLng = toRad (longitude start);
               endLat = toRad (latitude end);
               endLng = toRad (longitude end);
               y = sin (endLng - startLng) * cos endLat;
               x = cos startLat * sin endLat -
                   sin startLat * cos endLat * cos (endLng - startLng);
               bearing = atan2 y x * 180 / pi
           in js_rem (bearing + 360) 360)
      | _ \<Rightarrow> 0)"

text \<open>
  Two bearings in \<open>[0, 360)\<close> differ by 180 degrees modulo 360, up to the tolerance
  \<open>tol\<close>, when the absolute value of their difference is within \<open>tol\<close> of 180.
\<close>

definition opposite_within :: "real \<Rightarrow> real \<Rightarrow> real \<Rightarrow> bool" where
  "opposite_within tol b1 b2 \<longleftrightarrow> \<bar>\<bar>b1 - b2\<bar> - 180\<bar> \<le> tol"


section \<open>Vehicles and predefined routes (server)\<close>

datatype error = TypeError

text \<open>
  A base vehicle as \<open>generateVehicles\<close> builds it. The fields \<open>id\<close>, \<open>type\<close> and
  \<open>route\<close> of the source are \<open>vehicle_id\<close>, \<open>vehicle_type\<close> and \<open>vehicle_route\<close> here.
\<close>

record vehicle =
  vehicle_id :: string
  name :: string
  vehicle_type :: string
  vehicle_route :: string
  routeId :: string
  stops :: int
  speed :: real
  heading :: real
  location :: coord
  lastUpdated :: string

text \<open>
  An entry of \<open>BUS_ROUTES\<close>; its fields \<open>id\<close>, \<open>name\<close> and \<open>stops\<close> are
  \<open>route_id\<close>, \<open>route_name\<close> and \<open>route_stops\<close> here.
\<close>

record bus_route =
  route_id :: string
  route_name :: string
  startPoint :: string
  endPoint :: string
  startCoordinates :: "coord option"
  endCoordinates :: "coord option"
  route_stops :: int
  color :: string

definition BUS_ROUTES :: "bus_route list" where
  "BUS_ROUTES =
     [\<lparr>route_id = ''route-1'', route_name = ''Bus #1'',
       startPoint = ''Al Urubah Station'', endPoint = ''Olaya buildings'',
       startCoordinates = Some \<lparr>latitude = 24.715722, longitude = 46.672611\<rparr>,
       endCoordinates = Some \<lparr>latitude = 24.711389, longitude = 46.674444\<rparr>,
       route_stops = 8, color = ''#2ecc71''\<rparr>,
      \<lparr>route_id = ''route-2'', route_name = ''Bus #2'',
       startPoint = ''Al Urubah Station'', endPoint = ''Sulimaniyah buildings'',
       startCoordinates = Some \<lparr>latitude = 24.7175, longitude = 46.6726\<rparr>,
       endCoordinates = Some \<lparr>latitude = 24.7244, longitude = 46.6872\<rparr>,
       route_stops = 5, color = ''#3498db''\<rparr>,
      \<lparr>route_id = ''route-3'', route_name = ''Bus #3'',
       startPoint = ''Sulimaniyah Station'', endPoint = ''Sulimaniyah Buildings'',
       startCoordinates = Some \<lparr>latitude = 24.7244, longitude = 46.6872\<rparr>,
       endCoordinates = Some \<lparr>latitude = 24.7165, longitude = 46.6765\<rparr>,
       route_stops = 7, color = ''#e74c3c''\<rparr>,
      \<lparr>route_id = ''route-4'', route_name = ''Bus #4'',
       startPoint = ''Kingdom Tower parking (Basement 2)'', endPoint = ''Olaya buildings'',
       startCoordinates = Some \<lparr>latitude = 24.7165, longitude = 46.6765\<rparr>,
       endCoordinates = Some \<lparr>latitude = 24.7155, longitude = 46.6705\<rparr>,
       route_stops = 6, color = ''#9b59b6''\<rparr>,
      \<lparr>route_id = ''route-5'', route_name = ''Bus #5'',
       startPoint = ''Olaya buildings'', endPoint = ''Sulimaniyah Buildings'',
       startCoordinates = Some \<lparr>latitude = 24.7155, longitude = 46.6705\<rparr>,
       endCoordinates = Some \<lparr>latitude = 24.7244, longitude = 46.6872\<rparr>,
       route_stops = 9, color = ''#f39c12''\<rparr>]"

definition DEFAULT_REGION :: coord where
  "DEFAULT_REGION = \<lparr>latitude = 24.710616, longitude = 46.6855285\<rparr>"

text \<open>Array indexing \<open>xs[i]\<close>: \<open>None\<close> is the \<open>undefined\<close> of an index out of range.\<close>

definition nth_js :: "'a list \<Rightarrow> int \<Rightarrow> 'a option" where
  "nth_js xs i = (if 0 \<le> i \<and> i < int (length xs) then Some (xs ! nat i) else None)"

text \<open>The decimal digits of a number, as a template literal prints it.\<close>

definition digit_char :: "nat \<Rightarrow> char" where
  "digit_char d = ''0123456789'' ! d"

function decimal :: "nat \<Rightarrow> string" where
  "decimal n = (if n < 10 then [digit_char n] else decimal (n div 10) @ [digit_char (n mod 10)])"
  by pat_completeness auto
termination
  by (relation "measure (\<lambda>n. n)") auto

subsection \<open>generateVehicles\<close>

text \<open>
  \<open>Math.random()\<close> is a parameter: \<open>rnd k\<close> is the value of the \<open>k\<close>-th call, and the
  loop threads the number of calls made so far. \<open>now\<close> stands for
  \<open>new Date().toISOString()\<close>. The loop \<open>for (let i = 0; i < actualCount; i++)\<close> is
  \<open>generateVehicles_loop\<close>; reading a field of \<open>BUS_ROUTES[i]\<close> when it is
  \<open>undefined\<close> throws.
\<close>

definition makeVehicle ::
  "(nat \<Rightarrow> real) \<Rightarrow> string \<Rightarrow> coord \<Rightarrow> nat \<Rightarrow> nat \<Rightarrow> bus_route \<Rightarrow> vehicle"
where
  "makeVehicle rnd now centerLocation i k routeData =
     (let loc =
        (case startCoordinates routeData of
           Some sc \<Rightarrow>
             \<lparr>latitude = latitude sc + (rnd k - 0.5) * 0.001,
              longitude = longitude sc + (rnd (k + 1) - 0.5) * 0.001\<rparr>
         | None \<Rightarrow>
             \<lparr>latitude = latitude centerLocation + (rnd k - 0.5) * 0.03,
              longitude = longitude centerLocation + (rnd (k + 1) - 0.5) * 0.03\<rparr>)
      in \<lparr>vehicle_id = ''vehicle-'' @ decimal i,
          name = ''Bus '' @ decimal (i + 1),
          vehicle_type = ''bus'',
          vehicle_route = route_name routeData,
          routeId = route_id routeData,
          stops = route_stops routeData,
          speed = 20 + real_of_int \<lfloor>rnd (k + 2) * 40\<rfloor>,
          heading = real_of_int \<lfloor>rnd (k + 3) * 360\<rfloor>,
          location = loc,
          lastUpdated = now\<rparr>)"

function generateVehicles_loop ::
  "(nat \<Rightarrow> real) \<Rightarrow> string \<Rightarrow> coord \<Rightarrow> int \<Rightarrow> nat \<Rightarrow> nat \<Rightarrow> vehicle list \<Rightarrow> error + vehicle list"
where
  "generateVehicles_loop rnd now centerLocation actualCount i k vehicles =
     (if int i < actualCount then
        (case nth_js BUS_ROUTES (int i) of
           None \<Rightarrow> Inl TypeError
         | Some routeData \<Rightarrow>
             generateVehicles_loop rnd now centerLocation actualCount (i + 1) (k + 4)
               (vehicles @ [makeVehicle rnd now centerLocation i k routeData]))
      else Inr vehicles)"
  by pat_completeness auto
termination
proof (relation "measure (\<lambda>(rnd, now, c, actualCount, i, k, vs). nat (actualCount - int i))")
  show "wf (measure (\<lambda>(rnd, now, c, actualCount, i, k, vs). nat (actualCount - int i)))"
    by (rule wf_measure)
next
  fix rnd :: "nat \<Rightarrow> real" and now :: string and centerLocation :: coord
    and actualCount :: int and i k :: nat and vehicles :: "vehicle list" and x2 :: bus_route
  assume "int i < actualCount"
  then have "nat (actualCount - int (i + 1)) < nat (actualCount - int i)"
    by linarith
  then show "((rnd, now, centerLocation, actualCount, i + 1, k + 4,
               vehicles @ [makeVehicle rnd now centerLocation i k x2]),
              rnd, now, centerLocation, actualCount, i, k, vehicles)
             \<in> measure (\<lambda>(rnd, now, c, actualCount, i, k, vs). nat (actualCount - int i))"
    by (simp only: in_measure prod.case)
qed

declare generateVehicles_loop.simps [simp del]

text \<open>
  \<open>generateVehicles(centerLocation, count)\<close>: a missing centre is replaced by
  \<open>DEFAULT_REGION\<close>, and \<open>actualCount = Math.min(count, BUS_ROUTES.length)\<close>.
\<close>

definition generateVehicles ::
  "(nat \<Rightarrow> real) \<Rightarrow> string \<Rightarrow> coord option \<Rightarrow> int \<Rightarrow> error + vehicle list"
where
  "generateVehicles rnd now centerLocation count =
     (let center = (case centerLocation of None \<Rightarrow> DEFAULT_REGION | Some c \<Rightarrow> c);
          actualCount = min count (int (length BUS_ROUTES))
      in generateVehicles_loop rnd now center actualCount 0 0 [])"

section \<open>Simulated vehicles\<close>

text \<open>
  What \<open>startVehicleSimulation\<close> adds to a base vehicle in the server and in the client
  vehicle service: \<open>{...vehicle, currentRouteIndex: 0, ...}\<close>. The type of \<open>routeInfo\<close>
  differs between the two and is a parameter. \<open>fixedRoute\<close> can be \<open>null\<close>
  (\<open>None\<close>). The display-only \<open>simulationSpeed\<close> of the client service, which nothing
  reads, is left out.
\<close>

record 'i sim_vehicle = vehicle +
  currentRouteIndex :: int
  originalLocation :: coord
  fixedRoute :: "coord list option"
  direction :: int
  progress :: real
  routeInfo :: 'i

record server_info =
  info_startPoint :: string
  info_endPoint :: string
  info_color :: string

text \<open>\<open>vehicle.speed || 30\<close>: a speed of 0 is falsy.\<close>

definition speed_or_30 :: "real \<Rightarrow> real" where
  "speed_or_30 s = (if s = 0 then 30 else s)"

text \<open>
  \<open>generateRandomCoordinate(center, radiusKm)\<close>, with the two values of
  \<open>Math.random()\<close> as the parameters \<open>u\<close> and \<open>v\<close>.
\<close>

definition generateRandomCoordinate :: "coord \<Rightarrow> real \<Rightarrow> real \<Rightarrow> real \<Rightarrow> coord" where
  "generateRandomCoordinate center radiusKm u v =
     (let radiusEarth = 6371;
          radiusRadians = radiusKm / radiusEarth;
          w = radiusRadians * sqrt u;
          t = 2 * pi * v;
          x = w * cos t;
          y = w * sin t
      in \<lparr>latitude = latitude center + y * (180 / pi),
          longitude = longitude center + x * (180 / pi) / cos (latitude center * pi / 180)\<rparr>)"

text \<open>
  \<open>Array.prototype.map\<close> with a callback that may throw, and \<open>Promise.all\<close> over
  promises that may reject: the first failure is the failure of the whole.
\<close>

fun map_or_throw :: "('a \<Rightarrow> error + 'b) \<Rightarrow> 'a list \<Rightarrow> error + 'b list" where
  "map_or_throw f [] = Inr []"
| "map_or_throw f (x # xs) =
     (case f x of
        Inl e \<Rightarrow> Inl e
      | Inr y \<Rightarrow> (case map_or_throw f xs of Inl e \<Rightarrow> Inl e | Inr ys \<Rightarrow> Inr (y # ys)))"

section \<open>Server simulator (socket server)\<close>

subsection \<open>Route resolution at start\<close>

text \<open>
  The body of \<open>vehicles.map(async (vehicle) => ...)\<close> in the server's
  \<open>startVehicleSimulation\<close>. \<open>fetched\<close> is what \<open>await fetchDirections(startPoint,
  endPoint)\<close> gives for this vehicle: a rejection (\<open>Inl\<close>), \<open>null\<close> (\<open>Inr None\<close>) or a
  result whose \<open>coordinates\<close> are \<open>coords\<close> (\<open>Inr (Some coords)\<close>). \<open>userLocation\<close> is read only
  when the route has no predefined end points, and reading it when it is missing throws
  outside the \<open>try\<close> block. The local variables \<open>startPoint\<close> and \<open>endPoint\<close> of the
  source are \<open>startP\<close> and \<open>endP\<close> here.
\<close>

definition server_init_vehicle ::
  "(error + coord list option) \<Rightarrow> coord option \<Rightarrow> real \<times> real \<Rightarrow> vehicle \<Rightarrow>
   error + server_info sim_vehicle"
where
  "server_init_vehicle fetched userLocation uv vehicle =
     (let routeData =
            (case find (\<lambda>r. route_id r = routeId vehicle) BUS_ROUTES of
               Some r \<Rightarrow> r
             | None \<Rightarrow> BUS_ROUTES ! 0);
          points =
            (case (startCoordinates routeData, endCoordinates routeData) of
               (Some sc, Some ec) \<Rightarrow> Inr (sc, ec)
             | _ \<Rightarrow>
               (case userLocation of
                  None \<Rightarrow> Inl TypeError
                | Some center \<Rightarrow>
                    Inr (location vehicle, generateRandomCoordinate center 3.0 (fst uv) (snd uv))))
      in case points of
           Inl e \<Rightarrow> Inl e
         | Inr (startP, endP) \<Rightarrow>
             (let routeCoordinates =
                    (case fetched of
                       Inr (Some coords) \<Rightarrow>
                         if length coords > 0 then coords else [startP, endP]
                     | Inr None \<Rightarrow> [startP, endP]
                     | Inl err \<Rightarrow> [startP, endP])
              in Inr \<lparr>vehicle_id = vehicle_id vehicle, name = name vehicle,
                      vehicle_type = vehicle_type vehicle, vehicle_route = vehicle_route vehicle,
                      routeId = routeId vehicle, stops = stops vehicle,
                      speed = speed_or_30 (speed vehicle) / 3600 * 0.0001 * 100,
                      heading = heading vehicle, location = location vehicle,
                      lastUpdated = lastUpdated vehicle,
                      currentRouteIndex = 0,
                      originalLocation = location vehicle,
                      fixedRoute = Some routeCoordinates,
                      direction = 1,
                      progress = 0,
                      routeInfo = \<lparr>info_startPoint = startPoint routeData,
                                   info_endPoint = endPoint routeData,
                                   info_color = color routeData\<rparr>\<rparr>))"

text \<open>
  \<open>await Promise.all(vehiclePromises)\<close>: \<open>fetched i\<close> and \<open>uv i\<close> are the directions
  result and the random pair of the \<open>i\<close>-th vehicle.
\<close>

definition server_resolve ::
  "(nat \<Rightarrow> error + coord list option) \<Rightarrow> coord option \<Rightarrow> (nat \<Rightarrow> real \<times> real) \<Rightarrow>
   vehicle list \<Rightarrow> error + server_info sim_vehicle list"
where
  "server_resolve fetched userLocation uv vehicles =
     map_or_throw (\<lambda>i. server_init_vehicle (fetched i) userLocation (uv i) (vehicles ! i))
       [0..<length vehicles]"

subsection \<open>The tick\<close>

text \<open>
  The source advances \<open>progress\<close> by the literal \<open>0.01\<close> on every tick; the step is a
  parameter of the model so that other steps can be stated, and \<open>PROGRESS_STEP\<close> is the
  source's value.
\<close>

definition PROGRESS_STEP :: real where
  "PROGRESS_STEP = 0.01"

text \<open>
  The callback of \<open>simulatedVehicles.map(vehicle => ...)\<close> inside the server's
  \<open>setInterval\<close>. \<open>now\<close> stands for \<open>new Date().toISOString()\<close>. The in-place updates
  of \<open>vehicle.progress\<close>, \<open>vehicle.currentRouteIndex\<close> and \<open>vehicle.direction\<close> are
  the values the returned copy \<open>{...vehicle, ...}\<close> carries. \<open>route[nextIndex]\<close> is read
  under the guard \<open>nextIndex >= 0 && nextIndex < route.length\<close>, and the index of the
  exact point is one of \<open>nextIndex\<close>, \<open>route.length - 1\<close> and \<open>0\<close>, so both reads are in
  range; \<open>route[vehicle.currentRouteIndex]\<close> can be \<open>undefined\<close>, and reading its
  \<open>latitude\<close> then throws.
\<close>

definition server_tick_vehicle ::
  "real \<Rightarrow> string \<Rightarrow> 'i sim_vehicle \<Rightarrow> error + 'i sim_vehicle"
where
  "server_tick_vehicle step now vehicle =
     (case fixedRoute vehicle of
        None \<Rightarrow> Inr vehicle
      | Some route \<Rightarrow>
          if length route > 1 then
            (let currentPoint = nth_js route (currentRouteIndex vehicle);
                 nextIndex = currentRouteIndex vehicle + direction vehicle
             in if nextIndex \<ge> 0 \<and> nextIndex < int (length route) then
                  (let nextPoint = route ! nat nextIndex;
                       bearing = calculateBearing currentPoint (Some nextPoint);
                       progress1 = progress vehicle + step
                   in if progress1 \<ge> 1 then
                        (let index1 = currentRouteIndex vehicle + direction vehicle;
                             reached = (index1 \<ge> int (length route) - 1 \<or> index1 \<le> 0);
                             direction1 = (if reached then direction vehicle * (- 1)
                                           else direction vehicle);
                             index2 = (if reached
                                       then (if direction1 = - 1 then int (length route) - 1 else 0)
                                       else index1)
                         in Inr (vehicle\<lparr>progress := 0,
                                          currentRouteIndex := index2,
                                          direction := direction1,
                                          location := route ! nat index2,
                                          heading := bearing,
                                          lastUpdated := now\<rparr>))
                      else
                        (case currentPoint of
                           None \<Rightarrow> Inl TypeError
                         | Some cur \<Rightarrow>
                             Inr (vehicle\<lparr>progress := progress1,
                                   location :=
                                     \<lparr>latitude = latitude cur +
                                          (latitude nextPoint - latitude cur) * progress1,
                                      longitude = longitude cur +
                                          (longitude nextPoint - longitude cur) * progress1\<rparr>,
                                   heading := bearing,
                                   lastUpdated := now\<rparr>)))
                else Inr vehicle)
          else Inr vehicle)"

text \<open>One firing of the interval: every vehicle is ticked, in order.\<close>

definition server_tick :: "real \<Rightarrow> string \<Rightarrow> 'i sim_vehicle list \<Rightarrow> error + 'i sim_vehicle list" where
  "server_tick step now vehicles = map_or_throw (server_tick_vehicle step now) vehicles"

text \<open>Consecutive ticks of one vehicle, one per timestamp.\<close>

fun server_ticks :: "real \<Rightarrow> string list \<Rightarrow> 'i sim_vehicle \<Rightarrow> error + 'i sim_vehicle" where
  "server_ticks step [] vehicle = Inr vehicle"
| "server_ticks step (now # nows) vehicle =
     (case server_tick_vehicle step now vehicle of
        Inl e \<Rightarrow> Inl e
      | Inr vehicle1 \<Rightarrow> server_ticks step nows vehicle1)"

text \<open>
  The states a vehicle with the route \<open>r\<close> is in between ticks of the server: index in
  range, progress in \<open>[0, 1)\<close>, direction 1 or -1, and the next index in range as well
  (after arriving at an end the direction already points back).
\<close>

definition server_inv :: "coord list \<Rightarrow> 'i sim_vehicle \<Rightarrow> bool" where
  "server_inv r v \<longleftrightarrow>
     fixedRoute v = Some r \<and>
     0 \<le> currentRouteIndex v \<and> currentRouteIndex v < int (length r) \<and>
     0 \<le> progress v \<and> progress v < 1 \<and>
     (direction v = 1 \<or> direction v = - 1) \<and>
     0 \<le> currentRouteIndex v + direction v \<and>
     currentRouteIndex v + direction v < int (length r)"

text \<open>
  The vehicle of the concrete scenario: route \<open>[{0,0}, {0,1}, {1,1}]\<close>, index 0, direction
  1, progress 0. The remaining fields have arbitrary values.
\<close>

definition scenario_vehicle :: "unit sim_vehicle" where
  "scenario_vehicle =
     \<lparr>vehicle_id = ''vehicle-0'', name = ''Bus 1'', vehicle_type = ''bus'',
      vehicle_route = ''Bus #1'', routeId = ''route-1'', stops = 8, speed = 30, heading = 0,
      location = \<lparr>latitude = 0, longitude = 0\<rparr>, lastUpdated = ''t0'',
      currentRouteIndex = 0, originalLocation = \<lparr>latitude = 0, longitude = 0\<rparr>,
      fixedRoute = Some [\<lparr>latitude = 0, longitude = 0\<rparr>, \<lparr>latitude = 0, longitude = 1\<rparr>,
                         \<lparr>latitude = 1, longitude = 1\<rparr>],
      direction = 1, progress = 0, routeInfo = ()\<rparr>"

section \<open>Client vehicle service (services/vehicleService)\<close>

text \<open>
  What \<open>generateVehicleRoute\<close> resolves to: \<open>{route: {coordinates, ...}, busStop}\<close>. Of
  the route only \<open>coordinates\<close> is read by the simulators; \<open>route\<close> is \<open>info_route\<close>
  here.
\<close>

record route_data =
  coordinates :: "coord list option"

record route_info =
  info_route :: "route_data option"
  busStop :: "coord option"

subsection \<open>generateVehicleRoute (services/mapService)\<close>





subsection \<open>startVehicleSimulation\<close>

text \<open>\<open>Math.round\<close>.\<close>

definition js_round :: "real \<Rightarrow> real" where
  "js_round x = real_of_int \<lfloor>x + 1 / 2\<rfloor>"

text \<open>
  The body of \<open>vehicles.map(async (vehicle) => { try {...} catch (error) {...} })\<close>.
  \<open>resolved\<close> is the outcome of \<open>await generateVehicleRoute(vehicle, userLocation)\<close>:
  \<open>Inl\<close> when it rejects. \<open>service_try\<close> is the \<open>try\<close> block and \<open>service_catch\<close> the
  \<open>catch\<close> block.
\<close>

definition service_try :: "(error + route_info) \<Rightarrow> vehicle \<Rightarrow> error + route_info sim_vehicle" where
  "service_try resolved vehicle =
     (case resolved of
        Inl e \<Rightarrow> Inl e
      | Inr info \<Rightarrow>
          (let bidirectionalRoute =
                 (case info_route info of
                    None \<Rightarrow> None
                  | Some rt \<Rightarrow>
                      (case coordinates rt of
                         None \<Rightarrow> None
                       | Some cs \<Rightarrow>
                           (let forwardRoute = cs;
                                reverseRoute = drop 1 (rev cs)
                            in Some (forwardRoute @ reverseRoute))))
           in Inr \<lparr>vehicle_id = vehicle_id vehicle, name = name vehicle,
                   vehicle_type = vehicle_type vehicle, vehicle_route = vehicle_route vehicle,
                   routeId = routeId vehicle, stops = stops vehicle,
                   speed = js_round (speed_or_30 (speed vehicle)),
                   heading = heading vehicle, location = location vehicle,
                   lastUpdated = lastUpdated vehicle,
                   currentRouteIndex = 0,
                   originalLocation = location vehicle,
                   fixedRoute = bidirectionalRoute,
                   direction = 1,
                   progress = 0,
                   routeInfo = info\<rparr>))"

definition service_catch :: "vehicle \<Rightarrow> route_info sim_vehicle" where
  "service_catch vehicle =
     \<lparr>vehicle_id = vehicle_id vehicle, name = name vehicle,
      vehicle_type = vehicle_type vehicle, vehicle_route = vehicle_route vehicle,
      routeId = routeId vehicle, stops = stops vehicle,
      speed = js_round (speed_or_30 (speed vehicle)),
      heading = heading vehicle, location = location vehicle,
      lastUpdated = lastUpdated vehicle,
      currentRouteIndex = 0,
      originalLocation = location vehicle,
      fixedRoute = None,
      direction = 1,
      progress = 0,
      routeInfo = \<lparr>info_route = None, busStop = None\<rparr>\<rparr>"

definition service_init_vehicle ::
  "(error + route_info) \<Rightarrow> vehicle \<Rightarrow> error + route_info sim_vehicle"
where
  "service_init_vehicle resolved vehicle =
     (case service_try resolved vehicle of
        Inr v \<Rightarrow> Inr v
      | Inl err \<Rightarrow> Inr (service_catch vehicle))"


text \<open>
  The callback of \<open>simulatedVehicles.map(vehicle => ...)\<close> inside the client service's
  \<open>setInterval\<close>. It is the server's, except for the \<open>else\<close> branch of the bounds check
  on \<open>nextIndex\<close>, which resets the vehicle instead of returning it.
\<close>

definition service_tick_vehicle ::
  "real \<Rightarrow> string \<Rightarrow> 'i sim_vehicle \<Rightarrow> error + 'i sim_vehicle"
where
  "service_tick_vehicle step now vehicle =
     (case fixedRoute vehicle of
        None \<Rightarrow> Inr vehicle
      | Some route \<Rightarrow>
          if length route > 1 then
            (let currentPoint = nth_js route (currentRouteIndex vehicle);
                 nextIndex = currentRouteIndex vehicle + direction vehicle
             in if nextIndex \<ge> 0 \<and> nextIndex < int (length route) then
                  (let nextPoint = route ! nat nextIndex;
                       bearing = calculateBearing currentPoint (Some nextPoint);
                       progress1 = progress vehicle + step
                   in if progress1 \<ge> 1 then
                        (let index1 = currentRouteIndex vehicle + direction vehicle;
                             reached = (index1 \<ge> int (length route) - 1 \<or> index1 \<le> 0);
                             direction1 = (if reached then direction vehicle * (- 1)
                                           else direction vehicle);
                             index2 = (if reached
                                       then (if direction1 = - 1 then int (length route) - 1 else 0)
                                       else index1)
                         in Inr (vehicle\<lparr>progress := 0,
                                          currentRouteIndex := index2,
                                          direction := direction1,
                                          location := route ! nat index2,
                                          heading := bearing,
                                          lastUpdated := now\<rparr>))
                      else
                        (case currentPoint of
                           None \<Rightarrow> Inl TypeError
                         | Some cur \<Rightarrow>
                             Inr (vehicle\<lparr>progress := progress1,
                                   location :=
                                     \<lparr>latitude = latitude cur +
                                          (latitude nextPoint - latitude cur) * progress1,
                                      longitude = longitude cur +
                                          (longitude nextPoint - longitude cur) * progress1\<rparr>,
                                   heading := bearing,
                                   lastUpdated := now\<rparr>)))
                else
                  Inr (vehicle\<lparr>direction := direction vehicle * (- 1),
                                 currentRouteIndex :=
                                   (if direction vehicle = 1 then int (length route) - 1 else 0),
                                 progress := 0\<rparr>))
          else Inr vehicle)"

definition service_tick :: "real \<Rightarrow> string \<Rightarrow> 'i sim_vehicle list \<Rightarrow> error + 'i sim_vehicle list" where
  "service_tick step now vehicles = map_or_throw (service_tick_vehicle step now) vehicles"



section \<open>Client socket utility (utils/socketUtils)\<close>

text \<open>
  A JavaScript number that may be missing or not a number. Arithmetic with \<open>undefined\<close>
  or \<open>NaN\<close> gives \<open>NaN\<close>, and every comparison with them is false.
\<close>

datatype jsnum = Undefined | NaN | Num real

fun js_plus :: "jsnum \<Rightarrow> jsnum \<Rightarrow> jsnum" where
  "js_plus (Num a) (Num b) = Num (a + b)"
| "js_plus _ _ = NaN"

fun js_times :: "jsnum \<Rightarrow> jsnum \<Rightarrow> jsnum" where
  "js_times (Num a) (Num b) = Num (a * b)"
| "js_times _ _ = NaN"

fun js_ge :: "jsnum \<Rightarrow> jsnum \<Rightarrow> bool" where
  "js_ge (Num a) (Num b) = (a \<ge> b)"
| "js_ge _ _ = False"

record js_coord =
  js_latitude :: jsnum
  js_longitude :: jsnum

definition to_js :: "coord \<Rightarrow> js_coord" where
  "to_js c = \<lparr>js_latitude = Num (latitude c), js_longitude = Num (longitude c)\<rparr>"

text \<open>A position equals a waypoint when both components are that waypoint's numbers.\<close>

definition at_waypoint :: "js_coord \<Rightarrow> coord \<Rightarrow> bool" where
  "at_waypoint p w \<longleftrightarrow> js_latitude p = Num (latitude w) \<and> js_longitude p = Num (longitude w)"

text \<open>
  A simulated vehicle of the socket utility: the fields of the base vehicle and
  \<open>routeInfo\<close>, \<open>currentRouteIndex\<close>, \<open>originalLocation\<close>, \<open>fixedRoute\<close>. Every field
  carries the prefix \<open>sv_\<close> here. The object has no \<open>progress\<close> field until the first tick
  writes one: \<open>sv_progress\<close> is \<open>Undefined\<close> until then. The location is a \<open>js_coord\<close>
  because the tick computes it from \<open>progress\<close>.
\<close>

record socket_vehicle =
  sv_id :: string
  sv_name :: string
  sv_type :: string
  sv_route :: string
  sv_routeId :: string
  sv_stops :: int
  sv_speed :: real
  sv_heading :: real
  sv_location :: js_coord
  sv_lastUpdated :: string
  sv_routeInfo :: route_info
  sv_currentRouteIndex :: int
  sv_originalLocation :: coord
  sv_fixedRoute :: "coord list option"
  sv_progress :: jsnum

text \<open>
  The \<open>try\<close> block and the \<open>catch\<close> block of \<open>initializeVehicles\<close>. The spread
  \<open>[...routeInfo.route.coordinates]\<close> of missing coordinates throws inside the \<open>try\<close>.
\<close>

definition socket_try :: "(error + route_info) \<Rightarrow> vehicle \<Rightarrow> error + socket_vehicle" where
  "socket_try resolved vehicle =
     (case resolved of
        Inl e \<Rightarrow> Inl e
      | Inr info \<Rightarrow>
          (case (case info_route info of
                   None \<Rightarrow> Inr None
                 | Some rt \<Rightarrow>
                     (case coordinates rt of None \<Rightarrow> Inl TypeError | Some cs \<Rightarrow> Inr (Some cs))) of
             Inl e \<Rightarrow> Inl e
           | Inr fixed \<Rightarrow>
               Inr \<lparr>sv_id = vehicle_id vehicle, sv_name = name vehicle,
                     sv_type = vehicle_type vehicle, sv_route = vehicle_route vehicle,
                     sv_routeId = routeId vehicle, sv_stops = stops vehicle,
                     sv_speed = speed_or_30 (speed vehicle) / 3600 * 0.0001 * 20,
                     sv_heading = heading vehicle,
                     sv_location = to_js (location vehicle),
                     sv_lastUpdated = lastUpdated vehicle,
                     sv_routeInfo = info,
                     sv_currentRouteIndex = 0,
                     sv_originalLocation = location vehicle,
                     sv_fixedRoute = fixed,
                     sv_progress = Undefined\<rparr>))"

definition socket_catch :: "vehicle \<Rightarrow> socket_vehicle" where
  "socket_catch vehicle =
     \<lparr>sv_id = vehicle_id vehicle, sv_name = name vehicle,
      sv_type = vehicle_type vehicle, sv_route = vehicle_route vehicle,
      sv_routeId = routeId vehicle, sv_stops = stops vehicle,
      sv_speed = speed_or_30 (speed vehicle) / 3600 * 0.0001 * 20,
      sv_heading = heading vehicle,
      sv_location = to_js (location vehicle),
      sv_lastUpdated = lastUpdated vehicle,
      sv_routeInfo = \<lparr>info_route = None, busStop = None\<rparr>,
      sv_currentRouteIndex = 0,
      sv_originalLocation = location vehicle,
      sv_fixedRoute = None,
      sv_progress = Undefined\<rparr>"

definition socket_init_vehicle :: "(error + route_info) \<Rightarrow> vehicle \<Rightarrow> error + socket_vehicle" where
  "socket_init_vehicle resolved vehicle =
     (case socket_try resolved vehicle of
        Inr v \<Rightarrow> Inr v
      | Inl err \<Rightarrow> Inr (socket_catch vehicle))"

definition socket_resolve ::
  "(nat \<Rightarrow> error + route_info) \<Rightarrow> vehicle list \<Rightarrow> error + socket_vehicle list"
where
  "socket_resolve resolved vehicles =
     map_or_throw (\<lambda>i. socket_init_vehicle (resolved i) (vehicles ! i)) [0..<length vehicles]"

text \<open>
  The callback of \<open>simulatedVehicles.map(vehicle => ...)\<close> in \<open>startSimulationInterval\<close>.
  \<open>vehicle.progress += 0.0005\<close> is \<open>progress1\<close>; \<open>progress2\<close> and \<open>index2\<close> are the
  progress and the index after the \<open>if (vehicle.progress >= 1)\<close> block. Reading
  \<open>latitude\<close> of an \<open>undefined\<close> point throws.
\<close>

definition socket_tick_vehicle :: "string \<Rightarrow> socket_vehicle \<Rightarrow> error + socket_vehicle" where
  "socket_tick_vehicle now vehicle =
     (case sv_fixedRoute vehicle of
        None \<Rightarrow> Inr vehicle
      | Some route \<Rightarrow>
          if length route > 1 then
            if sv_currentRouteIndex vehicle \<ge> int (length route) - 1 then
              Inr (vehicle\<lparr>sv_currentRouteIndex := 0,
                            sv_location := to_js (sv_originalLocation vehicle),
                            sv_heading := 0,
                            sv_lastUpdated := now\<rparr>)
            else
              (let currentPoint = nth_js route (sv_currentRouteIndex vehicle);
                   nextPoint = nth_js route (sv_currentRouteIndex vehicle + 1);
                   bearing = calculateBearing currentPoint nextPoint;
                   progress1 = js_plus (sv_progress vehicle) (Num 0.0005);
                   progress2 = (if js_ge progress1 (Num 1) then Num 0 else progress1);
                   index2 = (if js_ge progress1 (Num 1) then sv_currentRouteIndex vehicle + 1
                             else sv_currentRouteIndex vehicle)
               in case currentPoint of
                    None \<Rightarrow> Inl TypeError
                  | Some cur \<Rightarrow>
                      (case nextPoint of
                         None \<Rightarrow> Inl TypeError
                       | Some nxt \<Rightarrow>
                           Inr (vehicle\<lparr>sv_progress := progress2,
                                 sv_currentRouteIndex := index2,
                                 sv_location :=
                                   \<lparr>js_latitude =
                                      js_plus (Num (latitude cur))
                                        (js_times (Num (latitude nxt - latitude cur)) progress2),
                                    js_longitude =
                                      js_plus (Num (longitude cur))
                                        (js_times (Num (longitude nxt - longitude cur)) progress2)\<rparr>,
                                 sv_heading := bearing,
                                 sv_lastUpdated := now\<rparr>)))
          else Inr vehicle)"

definition socket_tick :: "string \<Rightarrow> socket_vehicle list \<Rightarrow> error + socket_vehicle list" where
  "socket_tick now vehicles = map_or_throw (socket_tick_vehicle now) vehicles"

fun socket_run :: "string list \<Rightarrow> socket_vehicle list \<Rightarrow> error + socket_vehicle list" where
  "socket_run [] vehicles = Inr vehicles"
| "socket_run (now # nows) vehicles =
     (case socket_tick now vehicles of
        Inl e \<Rightarrow> Inl e
      | Inr vehicles1 \<Rightarrow> socket_run nows vehicles1)"

text \<open>
  The states a vehicle of the socket utility is in between ticks when it started without
  a \<open>progress\<close> field: index 0, progress missing or \<open>NaN\<close>.
\<close>

definition socket_inv :: "socket_vehicle \<Rightarrow> bool" where
  "socket_inv v \<longleftrightarrow>
     sv_currentRouteIndex v = 0 \<and> (sv_progress v = Undefined \<or> sv_progress v = NaN)"

section \<open>Lifecycle: start and stop\<close>

text \<open>
  The module-level state of each of the three simulators, \<open>simulatedVehicles\<close> and
  \<open>simulationInterval\<close>, together with the part of the runtime it acts on: \<open>timers\<close> are
  the handles of the intervals that are set and not cleared, \<open>issued\<close> counts the handles
  given out so far.
\<close>

record 'v simulator =
  simulatedVehicles :: "'v list"
  simulationInterval :: "nat option"
  timers :: "nat list"
  issued :: nat

definition initial_simulator :: "'v simulator" where
  "initial_simulator =
     \<lparr>simulatedVehicles = [], simulationInterval = None, timers = [], issued = 0\<rparr>"

definition setInterval :: "'v simulator \<Rightarrow> nat \<times> 'v simulator" where
  "setInterval st =
     (let h = issued st + 1 in (h, st\<lparr>timers := timers st @ [h], issued := h\<rparr>))"

definition clearInterval :: "nat \<Rightarrow> 'v simulator \<Rightarrow> 'v simulator" where
  "clearInterval h st = st\<lparr>timers := removeAll h (timers st)\<rparr>"

definition stopVehicleSimulation :: "'v simulator \<Rightarrow> 'v simulator" where
  "stopVehicleSimulation st =
     (let st1 = (case simulationInterval st of
                   Some h \<Rightarrow> (clearInterval h st)\<lparr>simulationInterval := None\<rparr>
                 | None \<Rightarrow> st)
      in st1\<lparr>simulatedVehicles := []\<rparr>)"

text \<open>
  \<open>startVehicleSimulation\<close> runs in two parts. \<open>start_call\<close> is what happens during the
  call itself: \<open>stopVehicleSimulation()\<close>, and the route resolutions are started.
  \<open>start_resume\<close> is the continuation after \<open>await Promise.all(vehiclePromises)\<close>, which
  runs later, once every resolution has settled: the resolved vehicles are stored and the
  interval is set. When \<open>Promise.all\<close> rejects the continuation does not run.
\<close>

definition start_call :: "'v simulator \<Rightarrow> 'v simulator" where
  "start_call st = stopVehicleSimulation st"

definition start_resume :: "error + 'v list \<Rightarrow> 'v simulator \<Rightarrow> 'v simulator" where
  "start_resume resolved st =
     (case resolved of
        Inl e \<Rightarrow> st
      | Inr vehicles \<Rightarrow>
          (let st1 = st\<lparr>simulatedVehicles := vehicles\<rparr>;
               (h, st2) = setInterval st1
           in st2\<lparr>simulationInterval := Some h\<rparr>))"

text \<open>What the event loop runs, in order.\<close>

datatype 'v event = StartCall | StartResume "error + 'v list" | Stop

fun step_event :: "'v event \<Rightarrow> 'v simulator \<Rightarrow> 'v simulator" where
  "step_event StartCall st = start_call st"
| "step_event (StartResume resolved) st = start_resume resolved st"
| "step_event Stop st = stopVehicleSimulation st"

fun run_events :: "'v event list \<Rightarrow> 'v simulator \<Rightarrow> 'v simulator" where
  "run_events [] st = st"
| "run_events (e # es) st = run_events es (step_event e st)"

section \<open>Example inputs\<close>

text \<open>
  A base vehicle, a resolved route, and resolution outcomes, used to run the definitions on
  concrete inputs. \<open>example_fallback\<close> is what \<open>generateVehicleRoute\<close> gives for the
  vehicle when \<open>fetchDirections\<close> returns \<open>null\<close> and nothing is cached;
  \<open>example_provider_down\<close> gives that outcome to every vehicle, and \<open>example_outcomes\<close>
  has a rejection for vehicle 0, that outcome for vehicle 1 and a resolved route for the
  others.
\<close>

definition example_vehicle :: vehicle where
  "example_vehicle =
     \<lparr>vehicle_id = ''vehicle-0'', name = ''Bus 1'', vehicle_type = ''bus'',
      vehicle_route = ''Bus #1'', routeId = ''route-1'', stops = 8, speed = 30, heading = 0,
      location = \<lparr>latitude = 5, longitude = 5\<rparr>, lastUpdated = ''t0''\<rparr>"

definition example_info :: route_info where
  "example_info =
     \<lparr>info_route = Some \<lparr>coordinates = Some [\<lparr>latitude = 0, longitude = 0\<rparr>,
                                                \<lparr>latitude = 0, longitude = 1\<rparr>,
                                                \<lparr>latitude = 1, longitude = 1\<rparr>]\<rparr>,
      busStop = Some \<lparr>latitude = 1, longitude = 1\<rparr>\<rparr>"




section \<open>Properties of the geodesy helpers\<close>

subsection \<open>Distance\<close>

text \<open>
  In exact arithmetic the haversine term is symmetric in its two points and lies in
  \<open>[0, 1]\<close>. The bound is tight at antipodal points, which is where the doubles of the
  source can round the term above 1.
\<close>

lemma sin_half_sq_swap:
  "sin (toRad (x - y) / 2) * sin (toRad (x - y) / 2) =
   sin (toRad (y - x) / 2) * sin (toRad (y - x) / 2)"
proof -
  have "toRad (x - y) / 2 = - (toRad (y - x) / 2)"
    by (simp add: toRad_def field_simps)
  then have "sin (toRad (x - y) / 2) = - sin (toRad (y - x) / 2)"
    by (simp only: sin_minus)
  then show ?thesis by simp
qed

lemma haversine_a_sym: "haversine_a a b = haversine_a b a"
proof -
  have "haversine_a a b =
      sin (toRad (latitude b - latitude a) / 2) * sin (toRad (latitude b - latitude a) / 2) +
      cos (toRad (latitude a)) * cos (toRad (latitude b)) *
      (sin (toRad (longitude b - longitude a) / 2) * sin (toRad (longitude b - longitude a) / 2))"
    by (simp add: haversine_a_def Let_def mult.assoc)
  also have "\<dots> =
      sin (toRad (latitude a - latitude b) / 2) * sin (toRad (latitude a - latitude b) / 2) +
      cos (toRad (latitude b)) * cos (toRad (latitude a)) *
      (sin (toRad (longitude a - longitude b) / 2) * sin (toRad (longitude a - longitude b) / 2))"
    by (simp only: sin_half_sq_swap [of "latitude b" "latitude a"]
        sin_half_sq_swap [of "longitude b" "longitude a"] mult.commute [of "cos (toRad (latitude a))"])
  also have "\<dots> = haversine_a b a"
    by (simp add: haversine_a_def Let_def mult.assoc)
  finally show ?thesis .
qed

lemma haversine_a_range: "0 \<le> haversine_a a b \<and> haversine_a a b \<le> 1"
proof -
  define p where "p = toRad (latitude a)"
  define q where "q = toRad (latitude b)"
  define s where "s = sin (toRad (longitude b - longitude a) / 2) * sin (toRad (longitude b - longitude a) / 2)"
  have s0: "0 \<le> s" by (simp add: s_def)
  have s1: "s \<le> 1"
  proof -
    have "s + cos (toRad (longitude b - longitude a) / 2) * cos (toRad (longitude b - longitude a) / 2) = 1"
      using sin_cos_squared_add [of "toRad (longitude b - longitude a) / 2"]
      by (simp add: s_def power2_eq_square)
    moreover have "0 \<le> cos (toRad (longitude b - longitude a) / 2) * cos (toRad (longitude b - longitude a) / 2)"
      by simp
    ultimately show ?thesis by linarith
  qed
  have d: "toRad (latitude b - latitude a) / 2 = (q - p) / 2"
    by (simp add: p_def q_def toRad_def field_simps)
  have h: "haversine_a a b = sin ((q - p) / 2) * sin ((q - p) / 2) + cos p * cos q * s"
    by (simp add: haversine_a_def Let_def d p_def q_def s_def mult.assoc)
  have sq: "sin ((q - p) / 2) * sin ((q - p) / 2) = (1 - cos (q - p)) / 2"
  proof -
    have "2 * ((q - p) / 2) = q - p" by simp
    then have "cos (q - p) = 1 - 2 * (sin ((q - p) / 2))\<^sup>2"
      using cos_double_sin [of "(q - p) / 2"] by (simp only:)
    then show ?thesis by (simp add: power2_eq_square)
  qed
  have cc: "cos p * cos q = (cos (p - q) + cos (p + q)) / 2"
    by (rule cos_times_cos)
  have cm: "cos (p - q) = cos (q - p)"
    by (metis cos_minus minus_diff_eq)
  define u where "u = cos (q - p)"
  define v where "v = cos (p + q)"
  have ub: "-1 \<le> u" "u \<le> 1" "-1 \<le> v" "v \<le> 1" by (simp_all add: u_def v_def)
  have e: "haversine_a a b = (1 - u) / 2 * (1 - s) + (1 + v) / 2 * s"
    unfolding h sq cc cm u_def [symmetric] v_def [symmetric] by (simp add: field_simps)
  have t1: "0 \<le> (1 - u) / 2 * (1 - s)" using ub s1 by simp
  have t2: "0 \<le> (1 + v) / 2 * s" using ub s0 by simp
  have "(1 - u) / 2 * (1 - s) \<le> 1 * (1 - s)" 
    by (rule mult_right_mono) (use ub s1 in simp_all)
  then have t3: "(1 - u) / 2 * (1 - s) \<le> 1 - s" by simp
  have "(1 + v) / 2 * s \<le> 1 * s"
    by (rule mult_right_mono) (use ub s0 in simp_all)
  then have t4: "(1 + v) / 2 * s \<le> s" by simp
  define A where "A = (1 - u) / 2 * (1 - s)"
  define B where "B = (1 + v) / 2 * s"
  have "haversine_a a b = A + B" "0 \<le> A" "0 \<le> B" "A \<le> 1 - s" "B \<le> s"
    using e t1 t2 t3 t4 by (simp_all add: A_def B_def)
  then show ?thesis by linarith
qed


subsection \<open>Bearing\<close>

lemma js_rem_small: "0 \<le> x \<Longrightarrow> x < m \<Longrightarrow> js_rem x m = x"
proof -
  assume a: "0 \<le> x" "x < m"
  then have "0 \<le> x / m" "x / m < 1" by simp_all
  then have "\<lfloor>x / m\<rfloor> = 0" by linarith
  with \<open>0 \<le> x / m\<close> show ?thesis by (simp add: js_rem_def trunc_def)
qed

lemma js_rem_wrap: "0 < m \<Longrightarrow> m \<le> x \<Longrightarrow> x < 2 * m \<Longrightarrow> js_rem x m = x - m"
proof -
  assume a: "0 < m" "m \<le> x" "x < 2 * m"
  then have "1 \<le> x / m" "x / m < 2" by (simp_all add: field_simps)
  then have "\<lfloor>x / m\<rfloor> = 1" by linarith
  with \<open>1 \<le> x / m\<close> show ?thesis by (simp add: js_rem_def trunc_def)
qed

lemma bearing_unfold:
  "calculateBearing (Some s) (Some e) =
     js_rem (atan2 (sin (toRad (longitude e) - toRad (longitude s)) * cos (toRad (latitude e)))
                   (cos (toRad (latitude s)) * sin (toRad (latitude e)) -
                    sin (toRad (latitude s)) * cos (toRad (latitude e)) *
                    cos (toRad (longitude e) - toRad (longitude s))) * 180 / pi + 360) 360"
  by (simp add: calculateBearing_def Let_def)

lemma arctan_sqrt2_bounds: "pi / 4 < arctan (sqrt 2)" "arctan (sqrt 2) < pi / 3"
proof -
  have "arctan 1 < arctan (sqrt 2)" by (rule arctan_monotone) simp
  then show "pi / 4 < arctan (sqrt 2)" by (simp add: arctan_one)
  have "- (pi / 2) < pi / 3" "pi / 3 < pi / 2" using pi_gt_zero by linarith+
  then have "arctan (tan (pi / 3)) = pi / 3" by (rule arctan_tan)
  then have e: "arctan (sqrt 3) = pi / 3" by (simp add: tan_60)
  have "arctan (sqrt 2) < arctan (sqrt 3)" by (rule arctan_monotone) simp
  then show "arctan (sqrt 2) < pi / 3" by (simp add: e)
qed


lemma toRad_vals: "toRad 45 = pi / 4" "toRad 90 = pi / 2" "toRad 0 = 0"
  by (simp_all add: toRad_def)

lemma bearing_east: "calculateBearing (Some \<lparr>latitude = 45, longitude = 0\<rparr>) (Some \<lparr>latitude = 45, longitude = 90\<rparr>) = arctan (sqrt 2) * 180 / pi"
proof -
  have x: "cos (pi / 4) * sin (pi / 4) - sin (pi / 4) * cos (pi / 4) * cos (pi / 2 - 0) = (1 / 2 :: real)"
    by (simp add: cos_45 sin_45)
  have y: "sin (pi / 2 - 0) * cos (pi / 4) = sqrt 2 / 2"
    by (simp add: cos_45)
  have a: "atan2 (sqrt 2 / 2) (1 / 2) = arctan (sqrt 2)"
    by (simp add: atan2_def)
  have b: "calculateBearing (Some \<lparr>latitude = 45, longitude = 0\<rparr>) (Some \<lparr>latitude = 45, longitude = 90\<rparr>) = js_rem (arctan (sqrt 2) * 180 / pi + 360) 360"
    unfolding bearing_unfold by (simp only: coord.simps toRad_vals x y a)
  have "0 < arctan (sqrt 2) * 180 / pi" using arctan_sqrt2_bounds(1) pi_gt_zero by simp
  moreover have "arctan (sqrt 2) * 180 / pi < 60"
    using arctan_sqrt2_bounds(2) pi_gt_zero by (simp add: field_simps)
  ultimately show ?thesis unfolding b by (subst js_rem_wrap) simp_all
qed

lemma bearing_west: "calculateBearing (Some \<lparr>latitude = 45, longitude = 90\<rparr>) (Some \<lparr>latitude = 45, longitude = 0\<rparr>) = 360 - arctan (sqrt 2) * 180 / pi"
proof -
  have x: "cos (pi / 4) * sin (pi / 4) - sin (pi / 4) * cos (pi / 4) * cos (0 - pi / 2) = (1 / 2 :: real)"
    by (simp add: cos_45 sin_45)
  have y: "sin (0 - pi / 2) * cos (pi / 4) = - (sqrt 2 / 2)"
    by (simp add: cos_45)
  have a: "atan2 (- (sqrt 2 / 2)) (1 / 2) = - arctan (sqrt 2)"
    by (simp add: atan2_def arctan_minus)
  have b: "calculateBearing (Some \<lparr>latitude = 45, longitude = 90\<rparr>) (Some \<lparr>latitude = 45, longitude = 0\<rparr>) = js_rem (- arctan (sqrt 2) * 180 / pi + 360) 360"
    unfolding bearing_unfold by (simp only: coord.simps toRad_vals x y a)
  have "0 < arctan (sqrt 2) * 180 / pi" using arctan_sqrt2_bounds(1) pi_gt_zero by simp
  moreover have "arctan (sqrt 2) * 180 / pi < 60"
    using arctan_sqrt2_bounds(2) pi_gt_zero by (simp add: field_simps)
  ultimately show ?thesis unfolding b by (subst js_rem_small) simp_all
qed

lemma toRad_diff_bounds:
  assumes "x < y" "y - x < 180"
  shows "0 < toRad y - toRad x" "toRad y - toRad x < pi"
proof -
  have e: "toRad y - toRad x = (y - x) * (pi / 180)"
    by (simp add: toRad_def field_simps)
  have c: "0 < pi / 180" using pi_gt_zero by simp
  show "0 < toRad y - toRad x" unfolding e using assms(1) c by simp
  have "(y - x) * (pi / 180) < 180 * (pi / 180)"
    using assms(2) c by (rule mult_strict_right_mono)
  then show "toRad y - toRad x < pi" unfolding e by simp
qed

lemma meridian_north:
  assumes "longitude a = longitude b" "latitude a < latitude b" "latitude b - latitude a < 180"
  shows "calculateBearing (Some a) (Some b) = 0" "calculateBearing (Some b) (Some a) = 180"
proof -
  define p where "p = toRad (latitude a)"
  define q where "q = toRad (latitude b)"
  have pq: "0 < q - p" "q - p < pi"
    using assms(2,3) unfolding p_def q_def by (rule toRad_diff_bounds)+
  have s1: "cos p * sin q - sin p * cos q = sin (q - p)" by (simp add: sin_diff)
  have s2: "cos q * sin p - sin q * cos p = sin (p - q)" by (simp add: sin_diff)
  have pos: "0 < sin (q - p)" using pq by (rule sin_gt_zero)
  have "sin (p - q) = - sin (q - p)" by (metis sin_minus minus_diff_eq)
  then have neg: "sin (p - q) < 0" using pos by simp
  show "calculateBearing (Some a) (Some b) = 0"
    unfolding bearing_unfold using assms(1) pos
    by (simp add: p_def [symmetric] q_def [symmetric] s1 atan2_def js_rem_def trunc_def)
  show "calculateBearing (Some b) (Some a) = 180"
    unfolding bearing_unfold using assms(1) neg
    by (simp add: p_def [symmetric] q_def [symmetric] s2 atan2_def js_rem_def trunc_def)
qed

lemma equator_east:
  assumes "latitude a = 0" "latitude b = 0" "longitude a < longitude b" "longitude b - longitude a < 180"
  shows "calculateBearing (Some a) (Some b) = 90" "calculateBearing (Some b) (Some a) = 270"
proof -
  define d where "d = toRad (longitude b) - toRad (longitude a)"
  have dd: "0 < d" "d < pi"
    using assms(3,4) unfolding d_def by (rule toRad_diff_bounds)+
  have pos: "0 < sin d" using dd by (rule sin_gt_zero)
  have m: "toRad (longitude a) - toRad (longitude b) = - d" by (simp add: d_def)
  have z: "toRad 0 = 0" by (simp add: toRad_def)
  show "calculateBearing (Some a) (Some b) = 90"
    unfolding bearing_unfold using assms(1,2) pos
    by (simp add: d_def [symmetric] z atan2_def js_rem_def trunc_def)
  show "calculateBearing (Some b) (Some a) = 270"
    unfolding bearing_unfold m using assms(1,2) pos
    by (simp add: z atan2_def js_rem_def trunc_def)
qed

text \<open>
  Claim C4, as stated, fails: from (45, 0) to (45, 90) the forward azimuth is
  \<open>arctan (sqrt 2)\<close> in degrees (about 54.7), from (45, 90) to (45, 0) it is 360 minus
  that (about 305.3). The two differ by more than 240 and less than 270 degrees, so they
  are not 180 degrees apart within a tolerance of 60 degrees, nor within any smaller one.
\<close>

theorem bearing_reverse_counterexample:
  "(\<lparr>latitude = 45, longitude = 0\<rparr> :: coord) \<noteq> \<lparr>latitude = 45, longitude = 90\<rparr> \<and>
   \<not> opposite_within 60
        (calculateBearing (Some \<lparr>latitude = 45, longitude = 0\<rparr>)
                          (Some \<lparr>latitude = 45, longitude = 90\<rparr>))
        (calculateBearing (Some \<lparr>latitude = 45, longitude = 90\<rparr>)
                          (Some \<lparr>latitude = 45, longitude = 0\<rparr>))"
proof -
  have l: "45 < arctan (sqrt 2) * 180 / pi"
    using arctan_sqrt2_bounds(1) pi_gt_zero by (simp add: field_simps)
  have u: "arctan (sqrt 2) * 180 / pi < 60"
    using arctan_sqrt2_bounds(2) pi_gt_zero by (simp add: field_simps)
  have "(\<lparr>latitude = 45, longitude = 0\<rparr> :: coord) \<noteq> \<lparr>latitude = 45, longitude = 90\<rparr>"
    by simp
  then show ?thesis
    unfolding bearing_east bearing_west opposite_within_def using l u by argo
qed

text \<open>
  Claim C4, amended. For two points on one meridian (equal longitudes, different latitudes
  less than 180 degrees apart), and for two points on the equator (different longitudes
  less than 180 degrees apart), \<open>calculateBearing\<close> from the first to the second and from
  the second to the first differ by exactly 180 degrees.
\<close>

theorem bearing_reverse_on_meridian_or_equator:
  assumes "(longitude a = longitude b \<and> latitude a \<noteq> latitude b \<and>
            \<bar>latitude b - latitude a\<bar> < 180) \<or>
           (latitude a = 0 \<and> latitude b = 0 \<and> longitude a \<noteq> longitude b \<and>
            \<bar>longitude b - longitude a\<bar> < 180)"
  shows "opposite_within 0 (calculateBearing (Some a) (Some b))
                           (calculateBearing (Some b) (Some a))"
proof -
  consider
      (north) "longitude a = longitude b" "latitude a < latitude b" "latitude b - latitude a < 180"
    | (south) "longitude b = longitude a" "latitude b < latitude a" "latitude a - latitude b < 180"
    | (east) "latitude a = 0" "latitude b = 0" "longitude a < longitude b"
        "longitude b - longitude a < 180"
    | (west) "latitude b = 0" "latitude a = 0" "longitude b < longitude a"
        "longitude a - longitude b < 180"
    using assms by fastforce
  then show ?thesis
  proof cases
    case north
    then show ?thesis by (simp add: opposite_within_def meridian_north)
  next
    case south
    then show ?thesis by (simp add: opposite_within_def meridian_north)
  next
    case east
    then show ?thesis by (simp add: opposite_within_def equator_east)
  next
    case west
    then show ?thesis by (simp add: opposite_within_def equator_east)
  qed
qed

theorem bearing_reverse_on_meridian_or_equator_witness:
  "opposite_within 0
     (calculateBearing (Some \<lparr>latitude = 10, longitude = 20\<rparr>)
                       (Some \<lparr>latitude = 30, longitude = 20\<rparr>))
     (calculateBearing (Some \<lparr>latitude = 30, longitude = 20\<rparr>)
                       (Some \<lparr>latitude = 10, longitude = 20\<rparr>))"
  using bearing_reverse_on_meridian_or_equator
          [of "\<lparr>latitude = 10, longitude = 20\<rparr>" "\<lparr>latitude = 30, longitude = 20\<rparr>"]
  by simp

section \<open>Vehicle generation\<close>

lemma length_BUS_ROUTES: "length BUS_ROUTES = 5"
  by (simp add: BUS_ROUTES_def)

lemma generateVehicles_loop_spec:
  "n \<le> length BUS_ROUTES \<Longrightarrow> i \<le> n \<Longrightarrow>
   generateVehicles_loop rnd now c (int n) i k vs =
     Inr (vs @ map (\<lambda>j. makeVehicle rnd now c j (k + 4 * (j - i)) (BUS_ROUTES ! j)) [i..<n])"
proof (induction "n - i" arbitrary: i k vs)
  case 0
  then have "i = n" by simp
  then show ?case by (simp add: generateVehicles_loop.simps)
next
  case (Suc d)
  then have lt: "i < n" and d: "d = n - (i + 1)" and le: "i + 1 \<le> n" by simp_all
  have r: "nth_js BUS_ROUTES (int i) = Some (BUS_ROUTES ! i)"
    using lt Suc.prems(1) by (simp add: nth_js_def)
  have up: "[i..<n] = i # [i + 1..<n]" using lt by (simp add: upt_conv_Cons)
  have ar: "k + 4 + 4 * (j - (i + 1)) = k + 4 * (j - i)" if "j \<in> set [i + 1..<n]" for j
    using that by auto
  have m: "map (\<lambda>j. makeVehicle rnd now c j (k + 4 + 4 * (j - (i + 1))) (BUS_ROUTES ! j)) [i + 1..<n]
         = map (\<lambda>j. makeVehicle rnd now c j (k + 4 * (j - i)) (BUS_ROUTES ! j)) [i + 1..<n]"
    by (rule map_cong [OF refl]) (simp only: ar)
  have "generateVehicles_loop rnd now c (int n) i k vs =
        generateVehicles_loop rnd now c (int n) (i + 1) (k + 4)
          (vs @ [makeVehicle rnd now c i k (BUS_ROUTES ! i)])"
    using lt r by (subst generateVehicles_loop.simps) simp
  also have "\<dots> = Inr ((vs @ [makeVehicle rnd now c i k (BUS_ROUTES ! i)]) @
        map (\<lambda>j. makeVehicle rnd now c j (k + 4 + 4 * (j - (i + 1))) (BUS_ROUTES ! j)) [i + 1..<n])"
    using Suc.hyps(1) [OF d Suc.prems(1) le] .
  also have "\<dots> = Inr (vs @ makeVehicle rnd now c i k (BUS_ROUTES ! i) #
        map (\<lambda>j. makeVehicle rnd now c j (k + 4 * (j - i)) (BUS_ROUTES ! j)) [i + 1..<n])"
    by (simp only: m append_assoc append_Cons append_Nil)
  also have "\<dots> = Inr (vs @ map (\<lambda>j. makeVehicle rnd now c j (k + 4 * (j - i)) (BUS_ROUTES ! j)) [i..<n])"
    by (simp only: up list.map diff_self_eq_0 mult_0_right add_0_right)
  finally show ?case .
qed

lemma speed_range:
  assumes "0 \<le> (r::real)" "r < 1"
  shows "20 \<le> 20 + \<lfloor>r * 40\<rfloor>" "20 + \<lfloor>r * 40\<rfloor> < (60::int)"
proof -
  have "0 \<le> r * 40" "r * 40 < 40" using assms by simp_all
  then have "0 \<le> \<lfloor>r * 40\<rfloor>" "\<lfloor>r * 40\<rfloor> < 40" by linarith+
  then show "20 \<le> 20 + \<lfloor>r * 40\<rfloor>" "20 + \<lfloor>r * 40\<rfloor> < (60::int)" by simp_all
qed

text \<open>
  Claim C10. For a requested count \<open>count \<ge> 0\<close> and \<open>Math.random\<close> values in
  \<open>[0, 1)\<close>, \<open>generateVehicles\<close> returns exactly \<open>min count 5\<close> vehicles (the count is
  capped at the number of predefined routes without any error), and the vehicle at index
  \<open>i\<close> has id \<open>vehicle-i\<close>, name \<open>Bus i+1\<close>, type \<open>bus\<close>, the \<open>routeId\<close> of the \<open>i\<close>-th
  predefined route and an integer speed in \<open>[20, 60)\<close>.
\<close>

theorem generateVehicles_capped:
  assumes count: "0 \<le> count" and rnd: "\<forall>k. 0 \<le> rnd k \<and> rnd k < 1"
  shows "\<exists>vs. generateVehicles rnd now centerLocation count = Inr vs \<and>
           int (length vs) = min count 5 \<and>
           (\<forall>i < length vs.
              vehicle_id (vs ! i) = ''vehicle-'' @ decimal i \<and>
              name (vs ! i) = ''Bus '' @ decimal (i + 1) \<and>
              vehicle_type (vs ! i) = ''bus'' \<and>
              routeId (vs ! i) = route_id (BUS_ROUTES ! i) \<and>
              (\<exists>s::int. speed (vs ! i) = real_of_int s \<and> 20 \<le> s \<and> s < 60))"
proof -
  define c where "c = (case centerLocation of None \<Rightarrow> DEFAULT_REGION | Some c \<Rightarrow> c)"
  define n where "n = nat (min count 5)"
  define vs where "vs = map (\<lambda>j. makeVehicle rnd now c j (4 * j) (BUS_ROUTES ! j)) [0..<n]"
  have n5: "n \<le> length BUS_ROUTES" by (simp add: n_def length_BUS_ROUTES)
  have nn: "int n = min count (int (length BUS_ROUTES))"
    using count by (simp add: n_def length_BUS_ROUTES)
  have "generateVehicles rnd now centerLocation count = generateVehicles_loop rnd now c (int n) 0 0 []"
    by (simp add: generateVehicles_def c_def nn)
  also have "\<dots> = Inr vs"
    using generateVehicles_loop_spec [OF n5, of 0 rnd now c 0 "[]"] by (simp add: vs_def)
  finally have run: "generateVehicles rnd now centerLocation count = Inr vs" .
  have len: "int (length vs) = min count 5" using count by (simp add: vs_def n_def)
  have each: "vehicle_id (vs ! i) = ''vehicle-'' @ decimal i \<and>
              name (vs ! i) = ''Bus '' @ decimal (i + 1) \<and>
              vehicle_type (vs ! i) = ''bus'' \<and>
              routeId (vs ! i) = route_id (BUS_ROUTES ! i) \<and>
              (\<exists>s::int. speed (vs ! i) = real_of_int s \<and> 20 \<le> s \<and> s < 60)"
    if "i < length vs" for i
  proof -
    have i: "i < n" using that by (simp add: vs_def)
    then have e: "vs ! i = makeVehicle rnd now c i (4 * i) (BUS_ROUTES ! i)"
      by (simp add: vs_def)
    have r: "0 \<le> rnd (4 * i + 2)" "rnd (4 * i + 2) < 1" using rnd by simp_all
    have "speed (vs ! i) = real_of_int (20 + \<lfloor>rnd (4 * i + 2) * 40\<rfloor>)"
      by (simp add: e makeVehicle_def Let_def)
    then have "\<exists>s::int. speed (vs ! i) = real_of_int s \<and> 20 \<le> s \<and> s < 60"
      using speed_range [OF r] by blast
    then show ?thesis by (simp add: e makeVehicle_def Let_def)
  qed
  show ?thesis using run len each by blast
qed

theorem generateVehicles_capped_witness:
  "(0::int) \<le> 7 \<and> (\<forall>k::nat. (0::real) \<le> 1 / 2 \<and> (1 / 2 :: real) < 1) \<and>
   (\<exists>vs. generateVehicles (\<lambda>k. 1 / 2) ''t'' None 7 = Inr vs \<and> length vs = 5 \<and>
      vehicle_id (vs ! 4) = ''vehicle-4'' \<and> name (vs ! 4) = ''Bus 5'' \<and>
      routeId (vs ! 4) = ''route-5'' \<and> speed (vs ! 4) = 40)"
proof -
  have h: "\<forall>k::nat. (0::real) \<le> (\<lambda>k. 1 / 2) k \<and> (\<lambda>k. 1 / 2 :: real) k < 1" by simp
  obtain vs where vs: "generateVehicles (\<lambda>k. 1 / 2) ''t'' None 7 = Inr vs"
      "int (length vs) = min 7 5"
      "\<forall>i < length vs.
              vehicle_id (vs ! i) = ''vehicle-'' @ decimal i \<and>
              name (vs ! i) = ''Bus '' @ decimal (i + 1) \<and>
              vehicle_type (vs ! i) = ''bus'' \<and>
              routeId (vs ! i) = route_id (BUS_ROUTES ! i) \<and>
              (\<exists>s::int. speed (vs ! i) = real_of_int s \<and> 20 \<le> s \<and> s < 60)"
    using generateVehicles_capped [of 7 "\<lambda>k. 1 / 2" "''t''" None, OF _ h] by auto
  have l: "length vs = 5" using vs(2) by simp
  then have "vehicle_id (vs ! 4) = ''vehicle-'' @ decimal 4 \<and>
              name (vs ! 4) = ''Bus '' @ decimal (4 + 1) \<and>
              routeId (vs ! 4) = route_id (BUS_ROUTES ! 4)" using vs(3) by simp
  then have a: "vehicle_id (vs ! 4) = ''vehicle-4''" "name (vs ! 4) = ''Bus 5''" "routeId (vs ! 4) = ''route-5''"
    by (simp_all add: digit_char_def BUS_ROUTES_def)
  have "vs = map (\<lambda>j. makeVehicle (\<lambda>k. 1 / 2) ''t'' DEFAULT_REGION j (4 * j) (BUS_ROUTES ! j)) [0..<5]"
    using vs(1) generateVehicles_loop_spec [of 5 0 "\<lambda>k. 1 / 2" "''t''" DEFAULT_REGION 0 "[]"]
    by (simp add: generateVehicles_def length_BUS_ROUTES)
  then have "speed (vs ! 4) = 40" by (simp add: makeVehicle_def Let_def)
  with vs(1) l a show ?thesis by simp
qed

section \<open>The server tick\<close>

lemma server_tick_unfold:
  "fixedRoute v = Some r \<Longrightarrow> 1 < length r \<Longrightarrow>
   0 \<le> currentRouteIndex v + direction v \<Longrightarrow> currentRouteIndex v + direction v < int (length r) \<Longrightarrow>
   server_tick_vehicle step now v =
     (if 1 \<le> progress v + step then
        (let index1 = currentRouteIndex v + direction v;
             reached = (index1 \<ge> int (length r) - 1 \<or> index1 \<le> 0);
             direction1 = (if reached then direction v * (- 1) else direction v);
             index2 = (if reached then (if direction1 = - 1 then int (length r) - 1 else 0) else index1)
         in Inr (v\<lparr>progress := 0, currentRouteIndex := index2, direction := direction1,
                   location := r ! nat index2,
                   heading := calculateBearing (nth_js r (currentRouteIndex v)) (Some (r ! nat index1)),
                   lastUpdated := now\<rparr>))
      else
        (case nth_js r (currentRouteIndex v) of
           None \<Rightarrow> Inl TypeError
         | Some cur \<Rightarrow>
             Inr (v\<lparr>progress := progress v + step,
                   location :=
                     \<lparr>latitude = latitude cur + (latitude (r ! nat (currentRouteIndex v + direction v)) - latitude cur) * (progress v + step),
                      longitude = longitude cur + (longitude (r ! nat (currentRouteIndex v + direction v)) - longitude cur) * (progress v + step)\<rparr>,
                   heading := calculateBearing (nth_js r (currentRouteIndex v)) (Some (r ! nat (currentRouteIndex v + direction v))),
                   lastUpdated := now\<rparr>)))"
  by (simp add: server_tick_vehicle_def Let_def)

lemma bearing_due_east: "calculateBearing (Some \<lparr>latitude = 0, longitude = 0\<rparr>) (Some \<lparr>latitude = 0, longitude = 1\<rparr>) = 90"
proof -
  have "0 < pi / 180" "pi / 180 < pi" using pi_gt_zero by simp_all
  then have pos: "0 < sin (pi / 180)" by (rule sin_gt_zero)
  show ?thesis
    unfolding bearing_unfold using pos
    by (simp add: toRad_def atan2_def js_rem_def trunc_def)
qed

lemma server_ticks_snoc:
  "server_ticks step (nows @ [now]) v =
     (case server_ticks step nows v of Inl e \<Rightarrow> Inl e | Inr w \<Rightarrow> server_tick_vehicle step now w)"
  by (induction nows arbitrary: v) (simp_all split: sum.splits)

lemma scenario_state:
  fixes v0 :: "'i sim_vehicle"
  assumes fr: "fixedRoute v0 = Some [\<lparr>latitude = 0, longitude = 0\<rparr>, \<lparr>latitude = 0, longitude = 1\<rparr>,
                                      \<lparr>latitude = 1, longitude = 1\<rparr>]"
    and i0: "currentRouteIndex v0 = 0" and d0: "direction v0 = 1" and p0: "progress v0 = 0"
  shows "length nows \<le> 200 \<Longrightarrow>
     \<exists>w. server_ticks PROGRESS_STEP nows v0 = Inr w \<and>
       fixedRoute w = fixedRoute v0 \<and>
       ((length nows < 100 \<and> currentRouteIndex w = 0 \<and> direction w = 1 \<and>
         progress w = real (length nows) / 100 \<and>
         (0 < length nows \<longrightarrow>
            location w = \<lparr>latitude = 0, longitude = real (length nows) / 100\<rparr> \<and> heading w = 90)) \<or>
        (100 \<le> length nows \<and> length nows < 200 \<and> currentRouteIndex w = 1 \<and> direction w = 1 \<and>
         progress w = (real (length nows) - 100) / 100 \<and>
         location w = \<lparr>latitude = (real (length nows) - 100) / 100, longitude = 1\<rparr> \<and>
         heading w = (if length nows = 100 then 90
                      else calculateBearing (Some \<lparr>latitude = 0, longitude = 1\<rparr>)
                                            (Some \<lparr>latitude = 1, longitude = 1\<rparr>))) \<or>
        (length nows = 200 \<and> currentRouteIndex w = 2 \<and> direction w = - 1 \<and> progress w = 0 \<and>
         location w = \<lparr>latitude = 1, longitude = 1\<rparr> \<and>
         heading w = calculateBearing (Some \<lparr>latitude = 0, longitude = 1\<rparr>)
                                      (Some \<lparr>latitude = 1, longitude = 1\<rparr>)))"
proof (induction nows rule: rev_induct)
  case Nil
  then show ?case using i0 d0 p0 by simp
next
  case (snoc now nows)
  let ?r = "[\<lparr>latitude = 0, longitude = 0\<rparr>, \<lparr>latitude = 0, longitude = 1\<rparr>,
             \<lparr>latitude = 1, longitude = 1\<rparr>] :: coord list"
  let ?n = "length nows"
  from snoc.prems have n: "?n \<le> 199" by simp
  then have "?n \<le> 200" by simp
  from snoc.IH [OF this] obtain w where run: "server_ticks PROGRESS_STEP nows v0 = Inr w"
    and frw: "fixedRoute w = Some ?r"
    and st: "(?n < 100 \<and> currentRouteIndex w = 0 \<and> direction w = 1 \<and>
         progress w = real ?n / 100) \<or>
        (100 \<le> ?n \<and> ?n < 200 \<and> currentRouteIndex w = 1 \<and> direction w = 1 \<and>
         progress w = (real ?n - 100) / 100)"
    using fr n by auto
  have l: "1 < length ?r" by simp
  have s: "server_ticks PROGRESS_STEP (nows @ [now]) v0 = server_tick_vehicle PROGRESS_STEP now w"
    by (simp add: server_ticks_snoc run)
  from st show ?case
  proof
    assume a: "?n < 100 \<and> currentRouteIndex w = 0 \<and> direction w = 1 \<and> progress w = real ?n / 100"
    then have b0: "0 \<le> currentRouteIndex w + direction w"
      and b1: "currentRouteIndex w + direction w < int (length ?r)" by simp_all
    note u = server_tick_unfold [OF frw l b0 b1, of PROGRESS_STEP now]
    show ?thesis
    proof (cases "?n = 99")
      case True
      with a have "progress w + PROGRESS_STEP = 1" by (simp add: PROGRESS_STEP_def)
      then show ?thesis unfolding s u using a True fr frw
        by (simp add: Let_def nth_js_def bearing_due_east)
    next
      case False
      with a have lt: "?n < 99" by simp
      then have "real ?n < 99" by simp
      then have "\<not> 1 \<le> progress w + PROGRESS_STEP" using a by (simp add: PROGRESS_STEP_def)
      moreover have "progress w + PROGRESS_STEP = real (Suc ?n) / 100"
        using a by (simp add: PROGRESS_STEP_def field_simps)
      ultimately show ?thesis unfolding s u using a lt fr frw
        by (simp add: Let_def nth_js_def bearing_due_east)
    qed
  next
    assume a: "100 \<le> ?n \<and> ?n < 200 \<and> currentRouteIndex w = 1 \<and> direction w = 1 \<and>
         progress w = (real ?n - 100) / 100"
    then have b0: "0 \<le> currentRouteIndex w + direction w"
      and b1: "currentRouteIndex w + direction w < int (length ?r)" by simp_all
    note u = server_tick_unfold [OF frw l b0 b1, of PROGRESS_STEP now]
    show ?thesis
    proof (cases "?n = 199")
      case True
      with a have "progress w + PROGRESS_STEP = 1" by (simp add: PROGRESS_STEP_def)
      then show ?thesis unfolding s u using a True fr frw
        by (simp add: Let_def nth_js_def)
    next
      case False
      with a have lt: "?n < 199" by simp
      then have "real ?n < 199" by simp
      then have nq: "\<not> 1 \<le> (real (Suc ?n) - 100) / 100" by simp
      have pw: "progress w + PROGRESS_STEP = (real (Suc ?n) - 100) / 100"
        using a by (simp add: PROGRESS_STEP_def field_simps)
      from a have ia: "currentRouteIndex w = 1" and da: "direction w = 1" and ge: "100 \<le> ?n"
        by simp_all
      show ?thesis unfolding s u pw using nq ia da ge lt fr frw
        by (simp add: Let_def nth_js_def)
    qed
  qed
qed

text \<open>
  Claim C2, as stated, fails: the server's tick has no step to set and adds 0.01. On the
  claim's vehicle the first tick gives progress 0.01 and location \<open>{0, 0.01}\<close>, not
  progress 0.5 and location \<open>{0, 0.5}\<close>.
\<close>

theorem scenario_first_tick_counterexample:
  "server_tick_vehicle PROGRESS_STEP ''t1'' scenario_vehicle =
     Inr (scenario_vehicle\<lparr>progress := 1 / 100,
                            location := \<lparr>latitude = 0, longitude = 1 / 100\<rparr>,
                            heading := 90, lastUpdated := ''t1''\<rparr>) \<and>
   progress (scenario_vehicle\<lparr>progress := 1 / 100,
                             location := \<lparr>latitude = 0, longitude = 1 / 100\<rparr>,
                             heading := 90, lastUpdated := ''t1''\<rparr>) \<noteq> 1 / 2 \<and>
   location (scenario_vehicle\<lparr>progress := 1 / 100,
                             location := \<lparr>latitude = 0, longitude = 1 / 100\<rparr>,
                             heading := 90, lastUpdated := ''t1''\<rparr>) \<noteq>
     \<lparr>latitude = 0, longitude = 1 / 2\<rparr>"
  by (simp add: server_tick_vehicle_def scenario_vehicle_def nth_js_def PROGRESS_STEP_def
      Let_def bearing_due_east)

text \<open>
  Claim C2, amended to the step 0.01 of the source. A vehicle with route
  \<open>[{0,0}, {0,1}, {1,1}]\<close>, index 0, direction 1 and progress 0 (any other fields and
  timestamps) is ticked \<open>n\<close> times. For \<open>0 < n < 100\<close>: index 0, progress \<open>n/100\<close>,
  location \<open>{0, n/100}\<close>, heading the bearing from \<open>{0,0}\<close> to \<open>{0,1}\<close>, which is 90.
  For \<open>n = 100\<close>: progress 0, index 1, location \<open>{0,1}\<close>. For \<open>100 < n < 200\<close>:
  index 1, progress \<open>(n - 100)/100\<close>, location \<open>{(n - 100)/100, 1}\<close>, heading the
  bearing from \<open>{0,1}\<close> to \<open>{1,1}\<close>. For \<open>n = 200\<close>: index 2, direction -1, location
  \<open>{1,1}\<close>.
\<close>

theorem scenario_ticks_at_source_step:
  fixes v :: "'i sim_vehicle"
  assumes "length nows \<le> 200"
  shows "\<exists>w. server_ticks PROGRESS_STEP nows
            (v\<lparr>fixedRoute := Some [\<lparr>latitude = 0, longitude = 0\<rparr>,
                                   \<lparr>latitude = 0, longitude = 1\<rparr>,
                                   \<lparr>latitude = 1, longitude = 1\<rparr>],
               currentRouteIndex := 0, direction := 1, progress := 0\<rparr>) = Inr w \<and>
     (0 < length nows \<and> length nows < 100 \<longrightarrow>
        currentRouteIndex w = 0 \<and> direction w = 1 \<and>
        progress w = real (length nows) / 100 \<and>
        location w = \<lparr>latitude = 0, longitude = real (length nows) / 100\<rparr> \<and>
        heading w = calculateBearing (Some \<lparr>latitude = 0, longitude = 0\<rparr>)
                                     (Some \<lparr>latitude = 0, longitude = 1\<rparr>) \<and>
        heading w = 90) \<and>
     (length nows = 100 \<longrightarrow>
        progress w = 0 \<and> currentRouteIndex w = 1 \<and> direction w = 1 \<and>
        location w = \<lparr>latitude = 0, longitude = 1\<rparr>) \<and>
     (100 < length nows \<and> length nows < 200 \<longrightarrow>
        currentRouteIndex w = 1 \<and> direction w = 1 \<and>
        progress w = (real (length nows) - 100) / 100 \<and>
        location w = \<lparr>latitude = (real (length nows) - 100) / 100, longitude = 1\<rparr> \<and>
        heading w = calculateBearing (Some \<lparr>latitude = 0, longitude = 1\<rparr>)
                                     (Some \<lparr>latitude = 1, longitude = 1\<rparr>)) \<and>
     (length nows = 200 \<longrightarrow>
        progress w = 0 \<and> currentRouteIndex w = 2 \<and> direction w = - 1 \<and>
        location w = \<lparr>latitude = 1, longitude = 1\<rparr>)"
proof -
  let ?v0 = "v\<lparr>fixedRoute := Some [\<lparr>latitude = 0, longitude = 0\<rparr>,
                                   \<lparr>latitude = 0, longitude = 1\<rparr>,
                                   \<lparr>latitude = 1, longitude = 1\<rparr>],
               currentRouteIndex := 0, direction := 1, progress := 0\<rparr>"
  have "fixedRoute ?v0 = Some [\<lparr>latitude = 0, longitude = 0\<rparr>, \<lparr>latitude = 0, longitude = 1\<rparr>,
                                \<lparr>latitude = 1, longitude = 1\<rparr>]"
    "currentRouteIndex ?v0 = 0" "direction ?v0 = 1" "progress ?v0 = 0"
    by simp_all
  from scenario_state [OF this assms]
  obtain w where run: "server_ticks PROGRESS_STEP nows ?v0 = Inr w"
    and st: "(length nows < 100 \<and> currentRouteIndex w = 0 \<and> direction w = 1 \<and>
         progress w = real (length nows) / 100 \<and>
         (0 < length nows \<longrightarrow>
            location w = \<lparr>latitude = 0, longitude = real (length nows) / 100\<rparr> \<and> heading w = 90)) \<or>
        (100 \<le> length nows \<and> length nows < 200 \<and> currentRouteIndex w = 1 \<and> direction w = 1 \<and>
         progress w = (real (length nows) - 100) / 100 \<and>
         location w = \<lparr>latitude = (real (length nows) - 100) / 100, longitude = 1\<rparr> \<and>
         heading w = (if length nows = 100 then 90
                      else calculateBearing (Some \<lparr>latitude = 0, longitude = 1\<rparr>)
                                            (Some \<lparr>latitude = 1, longitude = 1\<rparr>))) \<or>
        (length nows = 200 \<and> currentRouteIndex w = 2 \<and> direction w = - 1 \<and> progress w = 0 \<and>
         location w = \<lparr>latitude = 1, longitude = 1\<rparr> \<and>
         heading w = calculateBearing (Some \<lparr>latitude = 0, longitude = 1\<rparr>)
                                      (Some \<lparr>latitude = 1, longitude = 1\<rparr>))"
    by blast
  from st have
    "(0 < length nows \<and> length nows < 100 \<longrightarrow>
        currentRouteIndex w = 0 \<and> direction w = 1 \<and>
        progress w = real (length nows) / 100 \<and>
        location w = \<lparr>latitude = 0, longitude = real (length nows) / 100\<rparr> \<and>
        heading w = calculateBearing (Some \<lparr>latitude = 0, longitude = 0\<rparr>)
                                     (Some \<lparr>latitude = 0, longitude = 1\<rparr>) \<and>
        heading w = 90) \<and>
     (length nows = 100 \<longrightarrow>
        progress w = 0 \<and> currentRouteIndex w = 1 \<and> direction w = 1 \<and>
        location w = \<lparr>latitude = 0, longitude = 1\<rparr>) \<and>
     (100 < length nows \<and> length nows < 200 \<longrightarrow>
        currentRouteIndex w = 1 \<and> direction w = 1 \<and>
        progress w = (real (length nows) - 100) / 100 \<and>
        location w = \<lparr>latitude = (real (length nows) - 100) / 100, longitude = 1\<rparr> \<and>
        heading w = calculateBearing (Some \<lparr>latitude = 0, longitude = 1\<rparr>)
                                     (Some \<lparr>latitude = 1, longitude = 1\<rparr>)) \<and>
     (length nows = 200 \<longrightarrow>
        progress w = 0 \<and> currentRouteIndex w = 2 \<and> direction w = - 1 \<and>
        location w = \<lparr>latitude = 1, longitude = 1\<rparr>)"
    by (auto simp add: bearing_due_east)
  with run show ?thesis by blast
qed

theorem scenario_ticks_at_source_step_witness:
  "(\<exists>w. server_ticks PROGRESS_STEP [''t1''] scenario_vehicle = Inr w \<and>
        progress w = 1 / 100 \<and> location w = \<lparr>latitude = 0, longitude = 1 / 100\<rparr> \<and>
        heading w = 90) \<and>
   (\<exists>w. server_ticks PROGRESS_STEP (replicate 100 ''t'') scenario_vehicle = Inr w \<and>
        progress w = 0 \<and> currentRouteIndex w = 1 \<and>
        location w = \<lparr>latitude = 0, longitude = 1\<rparr>) \<and>
   (\<exists>w. server_ticks PROGRESS_STEP (replicate 101 ''t'') scenario_vehicle = Inr w \<and>
        progress w = 1 / 100 \<and> location w = \<lparr>latitude = 1 / 100, longitude = 1\<rparr>) \<and>
   (\<exists>w. server_ticks PROGRESS_STEP (replicate 200 ''t'') scenario_vehicle = Inr w \<and>
        currentRouteIndex w = 2 \<and> direction w = - 1 \<and>
        location w = \<lparr>latitude = 1, longitude = 1\<rparr>)"
proof -
  have e: "scenario_vehicle\<lparr>fixedRoute := Some [\<lparr>latitude = 0, longitude = 0\<rparr>,
                                   \<lparr>latitude = 0, longitude = 1\<rparr>,
                                   \<lparr>latitude = 1, longitude = 1\<rparr>],
               currentRouteIndex := 0, direction := 1, progress := 0\<rparr> = scenario_vehicle"
    by (simp add: scenario_vehicle_def)
  have "length [''t1''] \<le> 200" by simp
  from scenario_ticks_at_source_step [OF this, of scenario_vehicle]
  have a: "\<exists>w. server_ticks PROGRESS_STEP [''t1''] scenario_vehicle = Inr w \<and>
        progress w = 1 / 100 \<and> location w = \<lparr>latitude = 0, longitude = 1 / 100\<rparr> \<and>
        heading w = 90"
    unfolding e by auto
  have "length (replicate 100 ''t'') \<le> 200" by simp
  from scenario_ticks_at_source_step [OF this, of scenario_vehicle]
  have b: "\<exists>w. server_ticks PROGRESS_STEP (replicate 100 ''t'') scenario_vehicle = Inr w \<and>
        progress w = 0 \<and> currentRouteIndex w = 1 \<and>
        location w = \<lparr>latitude = 0, longitude = 1\<rparr>"
    unfolding e by auto
  have "length (replicate 101 ''t'') \<le> 200" by simp
  from scenario_ticks_at_source_step [OF this, of scenario_vehicle]
  have c: "\<exists>w. server_ticks PROGRESS_STEP (replicate 101 ''t'') scenario_vehicle = Inr w \<and>
        progress w = 1 / 100 \<and> location w = \<lparr>latitude = 1 / 100, longitude = 1\<rparr>"
    unfolding e by auto
  have "length (replicate 200 ''t'') \<le> 200" by simp
  from scenario_ticks_at_source_step [OF this, of scenario_vehicle]
  have d: "\<exists>w. server_ticks PROGRESS_STEP (replicate 200 ''t'') scenario_vehicle = Inr w \<and>
        currentRouteIndex w = 2 \<and> direction w = - 1 \<and>
        location w = \<lparr>latitude = 1, longitude = 1\<rparr>"
    unfolding e by auto
  from a b c d show ?thesis by blast
qed

lemma server_tick_step:
  assumes inv: "server_inv r v" and len: "2 \<le> length r" and step: "0 \<le> step"
  shows "\<exists>v'. server_tick_vehicle step now v = Inr v' \<and> server_inv r v' \<and>
     (1 \<le> progress v + step \<longrightarrow>
        progress v' = 0 \<and> currentRouteIndex v' = currentRouteIndex v + direction v) \<and>
     (progress v + step < 1 \<longrightarrow>
        progress v' = progress v + step \<and> currentRouteIndex v' = currentRouteIndex v \<and>
        direction v' = direction v) \<and>
     (direction v' \<noteq> direction v \<longleftrightarrow>
        1 \<le> progress v + step \<and>
        (currentRouteIndex v + direction v + direction v < 0 \<or>
         int (length r) - 1 < currentRouteIndex v + direction v + direction v))"
proof -
  from inv have fr: "fixedRoute v = Some r"
    and i0: "0 \<le> currentRouteIndex v" and i1: "currentRouteIndex v < int (length r)"
    and p0: "0 \<le> progress v" and p1: "progress v < 1"
    and d: "direction v = 1 \<or> direction v = - 1"
    and n0: "0 \<le> currentRouteIndex v + direction v"
    and n1: "currentRouteIndex v + direction v < int (length r)"
    by (simp_all add: server_inv_def)
  have l1: "1 < length r" using len by simp
  have ne: "r \<noteq> []" using len by auto
  note u = server_tick_unfold [OF fr l1 n0 n1, of step now]
  have cur: "nth_js r (currentRouteIndex v) = Some (r ! nat (currentRouteIndex v))"
    using i0 i1 by (simp add: nth_js_def)
  show ?thesis
  proof (cases "1 \<le> progress v + step")
    case False
    then have "server_tick_vehicle step now v = Inr (v\<lparr>progress := progress v + step,
         location := \<lparr>latitude = latitude (r ! nat (currentRouteIndex v)) + (latitude (r ! nat (currentRouteIndex v + direction v)) - latitude (r ! nat (currentRouteIndex v))) * (progress v + step),
                      longitude = longitude (r ! nat (currentRouteIndex v)) + (longitude (r ! nat (currentRouteIndex v + direction v)) - longitude (r ! nat (currentRouteIndex v))) * (progress v + step)\<rparr>,
         heading := calculateBearing (nth_js r (currentRouteIndex v)) (Some (r ! nat (currentRouteIndex v + direction v))),
         lastUpdated := now\<rparr>)" (is "_ = Inr ?w")
      unfolding u by (simp add: cur)
    moreover have "server_inv r ?w"
      using fr i0 i1 p0 d n0 n1 step False by (simp add: server_inv_def)
    ultimately show ?thesis using False by simp
  next
    case True
    from d show ?thesis
    proof
      assume d1: "direction v = 1"
      show ?thesis
      proof (cases "currentRouteIndex v + 1 \<ge> int (length r) - 1")
        case top: True
        then have e: "currentRouteIndex v + 1 = int (length r) - 1" using n1 d1 by simp
        have "server_tick_vehicle step now v = Inr (v\<lparr>progress := 0,
            currentRouteIndex := int (length r) - 1, direction := - 1,
            location := r ! nat (int (length r) - 1),
            heading := calculateBearing (nth_js r (currentRouteIndex v)) (Some (r ! nat (currentRouteIndex v + 1))),
            lastUpdated := now\<rparr>)" (is "_ = Inr ?w")
          unfolding u using True d1 top by (simp add: Let_def)
        moreover have "server_inv r ?w"
          using fr len ne by (simp add: server_inv_def)
        ultimately show ?thesis using True d1 e i0 i1 by simp
      next
        case mid: False
        have nz: "\<not> currentRouteIndex v + 1 \<le> 0" using i0 by simp
        have "server_tick_vehicle step now v = Inr (v\<lparr>progress := 0,
            currentRouteIndex := currentRouteIndex v + 1, direction := 1,
            location := r ! nat (currentRouteIndex v + 1),
            heading := calculateBearing (nth_js r (currentRouteIndex v)) (Some (r ! nat (currentRouteIndex v + 1))),
            lastUpdated := now\<rparr>)" (is "_ = Inr ?w")
          unfolding u using True d1 mid nz by (simp add: Let_def)
        moreover have "server_inv r ?w"
          using fr i0 mid by (simp add: server_inv_def)
        ultimately show ?thesis using True d1 mid i0 by simp
      qed
    next
      assume d1: "direction v = - 1"
      show ?thesis
      proof (cases "currentRouteIndex v - 1 \<le> 0")
        case bot: True
        then have e: "currentRouteIndex v - 1 = 0" using n0 d1 by simp
        have nt: "\<not> int (length r) - 1 \<le> currentRouteIndex v - 1" using i1 by simp
        have "server_tick_vehicle step now v = Inr (v\<lparr>progress := 0,
            currentRouteIndex := 0, direction := 1,
            location := r ! nat 0,
            heading := calculateBearing (nth_js r (currentRouteIndex v)) (Some (r ! nat (currentRouteIndex v - 1))),
            lastUpdated := now\<rparr>)" (is "_ = Inr ?w")
          unfolding u using True d1 bot nt by (simp add: Let_def)
        moreover have "server_inv r ?w"
          using fr len ne by (simp add: server_inv_def)
        ultimately show ?thesis using True d1 e i0 i1 by simp
      next
        case mid: False
        have nt: "\<not> int (length r) - 1 \<le> currentRouteIndex v - 1" using i1 by simp
        have "server_tick_vehicle step now v = Inr (v\<lparr>progress := 0,
            currentRouteIndex := currentRouteIndex v - 1, direction := - 1,
            location := r ! nat (currentRouteIndex v - 1),
            heading := calculateBearing (nth_js r (currentRouteIndex v)) (Some (r ! nat (currentRouteIndex v - 1))),
            lastUpdated := now\<rparr>)" (is "_ = Inr ?w")
          unfolding u using True d1 mid nt by (simp add: Let_def)
        moreover have "server_inv r ?w"
          using fr i1 mid by (simp add: server_inv_def)
        ultimately show ?thesis using True d1 mid i1 by simp
      qed
    qed
  qed
qed

lemma server_ticks_inv:
  "server_inv r v \<Longrightarrow> 2 \<le> length r \<Longrightarrow> 0 \<le> step \<Longrightarrow>
   \<exists>v'. server_ticks step nows v = Inr v' \<and> server_inv r v'"
proof (induction nows arbitrary: v)
  case Nil
  then show ?case by simp
next
  case (Cons now nows)
  from server_tick_step [OF Cons.prems(1,2,3), of now]
  obtain v1 where "server_tick_vehicle step now v = Inr v1" "server_inv r v1" by blast
  with Cons.IH [OF _ Cons.prems(2,3), of v1] show ?case by simp
qed

lemma server_init_vehicle_initial:
  assumes "server_init_vehicle fetched userLocation uv vehicle = Inr v0"
  shows "currentRouteIndex v0 = 0 \<and> direction v0 = 1 \<and> progress v0 = 0 \<and>
         (\<exists>r. fixedRoute v0 = Some r \<and> r \<noteq> [])"
  using assms unfolding server_init_vehicle_def Let_def
  by (auto split: sum.splits option.splits prod.splits if_splits)

text \<open>
  Claim C3. A vehicle starts as \<open>startVehicleSimulation\<close> initialises it (index 0,
  direction 1, progress 0) on a route \<open>r\<close> of length at least 2, and the step is not
  negative (the source's is 0.01). Then every tick, after any number of earlier ticks,
  succeeds and leaves \<open>0 \<le> currentRouteIndex < length r\<close>, \<open>progress\<close> in \<open>[0, 1)\<close> and
  \<open>direction\<close> 1 or -1. When the progress reaches or exceeds 1 in the tick, the index
  advances by the direction and the progress is 0 after that same tick. The direction
  flips exactly in the ticks that advance the index to a position from which the next
  advance in the old direction would leave \<open>[0, length r - 1]\<close>.
\<close>

theorem server_tick_preserves_invariants:
  assumes "fixedRoute v0 = Some r" and "2 \<le> length r"
    and "currentRouteIndex v0 = 0" and "direction v0 = 1" and "progress v0 = 0"
    and "0 \<le> step"
  shows "\<exists>v v'. server_ticks step nows v0 = Inr v \<and> server_tick_vehicle step now v = Inr v' \<and>
     0 \<le> currentRouteIndex v' \<and> currentRouteIndex v' < int (length r) \<and>
     0 \<le> progress v' \<and> progress v' < 1 \<and>
     (direction v' = 1 \<or> direction v' = - 1) \<and>
     (1 \<le> progress v + step \<longrightarrow>
        progress v' = 0 \<and> currentRouteIndex v' = currentRouteIndex v + direction v) \<and>
     (direction v' \<noteq> direction v \<longleftrightarrow>
        1 \<le> progress v + step \<and>
        (currentRouteIndex v + direction v + direction v < 0 \<or>
         int (length r) - 1 < currentRouteIndex v + direction v + direction v))"
proof -
  have "server_inv r v0" using assms(1-5) by (auto simp add: server_inv_def)
  from server_ticks_inv [OF this assms(2) assms(6), of nows]
  obtain v where v: "server_ticks step nows v0 = Inr v" "server_inv r v" by blast
  from server_tick_step [OF v(2) assms(2) assms(6), of now]
  obtain v' where v': "server_tick_vehicle step now v = Inr v'" "server_inv r v'"
    "1 \<le> progress v + step \<longrightarrow>
        progress v' = 0 \<and> currentRouteIndex v' = currentRouteIndex v + direction v"
    "direction v' \<noteq> direction v \<longleftrightarrow>
        1 \<le> progress v + step \<and>
        (currentRouteIndex v + direction v + direction v < 0 \<or>
         int (length r) - 1 < currentRouteIndex v + direction v + direction v)"
    by blast
  from v'(2) have "0 \<le> currentRouteIndex v' \<and> currentRouteIndex v' < int (length r) \<and>
     0 \<le> progress v' \<and> progress v' < 1 \<and> (direction v' = 1 \<or> direction v' = - 1)"
    by (simp add: server_inv_def)
  with v(1) v'(1) v'(3) v'(4) show ?thesis by blast
qed

theorem server_tick_preserves_invariants_witness:
  "\<exists>v v'. server_ticks PROGRESS_STEP [''t1'', ''t2''] scenario_vehicle = Inr v \<and>
     server_tick_vehicle PROGRESS_STEP ''t3'' v = Inr v' \<and>
     0 \<le> currentRouteIndex v' \<and> currentRouteIndex v' < 3 \<and>
     0 \<le> progress v' \<and> progress v' < 1 \<and>
     (direction v' = 1 \<or> direction v' = - 1) \<and>
     (1 \<le> progress v + PROGRESS_STEP \<longrightarrow>
        progress v' = 0 \<and> currentRouteIndex v' = currentRouteIndex v + direction v) \<and>
     (direction v' \<noteq> direction v \<longleftrightarrow>
        1 \<le> progress v + PROGRESS_STEP \<and>
        (currentRouteIndex v + direction v + direction v < 0 \<or>
         2 < currentRouteIndex v + direction v + direction v))"
  using server_tick_preserves_invariants
          [of scenario_vehicle
              "[\<lparr>latitude = 0, longitude = 0\<rparr>, \<lparr>latitude = 0, longitude = 1\<rparr>,
                \<lparr>latitude = 1, longitude = 1\<rparr>]"
              PROGRESS_STEP "[''t1'', ''t2'']" "''t3''"]
  by (simp add: scenario_vehicle_def PROGRESS_STEP_def)

section \<open>The client simulators\<close>

subsection \<open>Mapping a callback that may throw\<close>

lemma map_or_throw_rel:
  "(\<And>x. x \<in> set xs \<Longrightarrow> \<exists>y. f x = Inr y \<and> R x y) \<Longrightarrow>
   \<exists>ys. map_or_throw f xs = Inr ys \<and> list_all2 R xs ys"
proof (induction xs)
  case Nil
  then show ?case by simp
next
  case (Cons x xs)
  from Cons.prems obtain y where y: "f x = Inr y" "R x y" by auto
  from Cons.IH Cons.prems obtain ys where ys: "map_or_throw f xs = Inr ys" "list_all2 R xs ys"
    by auto
  from y ys show ?case by simp
qed

lemma map_or_throw_insert:
  "f v = Inr v' \<Longrightarrow>
   map_or_throw f (xs @ v # ys) =
     (case map_or_throw f (xs @ ys) of
        Inl e \<Rightarrow> Inl e
      | Inr zs \<Rightarrow> Inr (take (length xs) zs @ v' # drop (length xs) zs))"
proof (induction xs)
  case Nil
  then show ?case by (simp split: sum.splits)
next
  case (Cons x xs)
  then show ?case by (simp split: sum.splits)
qed

lemma map_or_throw_length: "map_or_throw f xs = Inr ys \<Longrightarrow> length ys = length xs"
  by (induction xs arbitrary: ys) (auto split: sum.splits)


subsection \<open>Client vehicle service\<close>








text \<open>
  Claim C9. In the client vehicle service, when the route resolves with a coordinate list
  \<open>cs\<close> of length \<open>n \<ge> 1\<close>, the vehicle's \<open>fixedRoute\<close> is \<open>cs\<close> followed by the
  reversed \<open>cs\<close> without its first element: it has length \<open>2n - 1\<close>, its elements at 0
  and at \<open>2n - 2\<close> are \<open>cs[0]\<close>, and its element at \<open>n - 1 + i\<close> is \<open>cs[n - 1 - i]\<close>
  for \<open>1 \<le> i \<le> n - 1\<close>.
\<close>

theorem service_bidirectional_route:
  assumes "info_route info = Some rt" and "coordinates rt = Some cs" and "1 \<le> length cs"
  shows "\<exists>v fr. service_init_vehicle (Inr info) vehicle = Inr v \<and> fixedRoute v = Some fr \<and>
     fr = cs @ drop 1 (rev cs) \<and>
     length fr = 2 * length cs - 1 \<and>
     fr ! 0 = cs ! 0 \<and> fr ! (2 * length cs - 2) = cs ! 0 \<and>
     (\<forall>i. 1 \<le> i \<and> i \<le> length cs - 1 \<longrightarrow> fr ! (length cs - 1 + i) = cs ! (length cs - 1 - i))"
proof -
  define fr where "fr = cs @ drop 1 (rev cs)"
  obtain v where v: "service_init_vehicle (Inr info) vehicle = Inr v" "fixedRoute v = Some fr"
    using assms(1,2) by (simp add: service_init_vehicle_def service_try_def Let_def fr_def)
  have len: "length fr = 2 * length cs - 1" using assms(3) by (simp add: fr_def)
  have first: "fr ! 0 = cs ! 0" using assms(3) by (simp add: fr_def nth_append)
  have bk: "fr ! (length cs - 1 + i) = cs ! (length cs - 1 - i)"
    if "1 \<le> i" "i \<le> length cs - 1" for i
  proof -
    have "fr ! (length cs - 1 + i) = drop 1 (rev cs) ! (i - 1)"
      using that by (simp add: fr_def nth_append)
    also have "\<dots> = rev cs ! i" using that by simp
    also have "\<dots> = cs ! (length cs - Suc i)" using that by (simp add: rev_nth)
    finally show ?thesis by simp
  qed
  have lst: "fr ! (2 * length cs - 2) = cs ! 0"
  proof (cases "length cs = 1")
    case True
    then show ?thesis using first by simp
  next
    case False
    then have "1 \<le> length cs - 1" "length cs - 1 \<le> length cs - 1" using assms(3) by simp_all
    from bk [OF this] have "fr ! (length cs - 1 + (length cs - 1)) = cs ! 0" by simp
    moreover have "length cs - 1 + (length cs - 1) = 2 * length cs - 2" by simp
    ultimately show ?thesis by simp
  qed
  show ?thesis using v len first lst bk fr_def by blast
qed

theorem service_bidirectional_route_witness:
  "\<exists>v. service_init_vehicle (Inr example_info) example_vehicle = Inr v \<and>
     fixedRoute v = Some [\<lparr>latitude = 0, longitude = 0\<rparr>, \<lparr>latitude = 0, longitude = 1\<rparr>,
                          \<lparr>latitude = 1, longitude = 1\<rparr>, \<lparr>latitude = 0, longitude = 1\<rparr>,
                          \<lparr>latitude = 0, longitude = 0\<rparr>]"
  using service_bidirectional_route
          [of example_info
              "\<lparr>coordinates = Some [\<lparr>latitude = 0, longitude = 0\<rparr>, \<lparr>latitude = 0, longitude = 1\<rparr>,
                                     \<lparr>latitude = 1, longitude = 1\<rparr>]\<rparr>"
              "[\<lparr>latitude = 0, longitude = 0\<rparr>, \<lparr>latitude = 0, longitude = 1\<rparr>,
                \<lparr>latitude = 1, longitude = 1\<rparr>]"
              example_vehicle]
  by (auto simp add: example_info_def)


subsection \<open>Socket utility\<close>

lemma socket_init_vehicle_Inr:
  "socket_init_vehicle resolved vehicle =
     Inr (case socket_try resolved vehicle of Inr v \<Rightarrow> v | Inl e \<Rightarrow> socket_catch vehicle)"
  by (simp add: socket_init_vehicle_def split: sum.splits)


lemma socket_init_vehicle_inv:
  "socket_init_vehicle resolved vehicle = Inr v \<Longrightarrow> socket_inv v \<and> sv_progress v = Undefined"
  by (auto simp add: socket_init_vehicle_def socket_try_def socket_catch_def socket_inv_def
      split: sum.splits option.splits)

lemma socket_tick_vehicle_ok:
  assumes "socket_inv v"
  shows "\<exists>v'. socket_tick_vehicle now v = Inr v' \<and>
     (socket_inv v' \<and> sv_fixedRoute v' = sv_fixedRoute v \<and>
      (sv_fixedRoute v = None \<longrightarrow> v' = v) \<and>
      (\<forall>r. sv_fixedRoute v = Some r \<and> 2 \<le> length r \<longrightarrow>
         sv_progress v' = NaN \<and>
         sv_location v' = \<lparr>js_latitude = NaN, js_longitude = NaN\<rparr>))"
proof (cases "sv_fixedRoute v")
  case None
  then show ?thesis using assms by (simp add: socket_tick_vehicle_def)
next
  case (Some r)
  from assms have i: "sv_currentRouteIndex v = 0"
    and p: "sv_progress v = Undefined \<or> sv_progress v = NaN"
    by (simp_all add: socket_inv_def)
  show ?thesis
  proof (cases "length r > 1")
    case False
    then show ?thesis using Some assms by (simp add: socket_tick_vehicle_def)
  next
    case True
    then have c: "nth_js r 0 = Some (r ! 0)" "nth_js r 1 = Some (r ! 1)"
      by (auto simp add: nth_js_def)
    have n: "js_plus (sv_progress v) (Num 0.0005) = NaN" using p by auto
    show ?thesis using Some True i c n
      by (simp add: socket_tick_vehicle_def socket_inv_def Let_def)
  qed
qed

lemma socket_run_append:
  "socket_run (xs @ ys) vs =
     (case socket_run xs vs of Inl e \<Rightarrow> Inl e | Inr vs1 \<Rightarrow> socket_run ys vs1)"
  by (induction xs arbitrary: vs) (simp_all split: sum.splits)

lemma socket_tick_ok:
  assumes "list_all socket_inv vs"
  shows "\<exists>vs'. socket_tick now vs = Inr vs' \<and>
     list_all2 (\<lambda>v v'. socket_inv v' \<and> sv_fixedRoute v' = sv_fixedRoute v \<and>
      (sv_fixedRoute v = None \<longrightarrow> v' = v) \<and>
      (\<forall>r. sv_fixedRoute v = Some r \<and> 2 \<le> length r \<longrightarrow>
         sv_progress v' = NaN \<and>
         sv_location v' = \<lparr>js_latitude = NaN, js_longitude = NaN\<rparr>)) vs vs'"
  unfolding socket_tick_def
proof (rule map_or_throw_rel)
  fix x assume "x \<in> set vs"
  then have "socket_inv x" using assms by (simp add: list_all_iff)
  then show "\<exists>y. socket_tick_vehicle now x = Inr y \<and>
     (socket_inv y \<and> sv_fixedRoute y = sv_fixedRoute x \<and>
      (sv_fixedRoute x = None \<longrightarrow> y = x) \<and>
      (\<forall>r. sv_fixedRoute x = Some r \<and> 2 \<le> length r \<longrightarrow>
         sv_progress y = NaN \<and>
         sv_location y = \<lparr>js_latitude = NaN, js_longitude = NaN\<rparr>))"
    by (rule socket_tick_vehicle_ok)
qed

lemma socket_run_ok:
  "list_all socket_inv vs \<Longrightarrow>
   \<exists>vs'. socket_run nows vs = Inr vs' \<and>
     list_all2 (\<lambda>v v'. socket_inv v' \<and> sv_fixedRoute v' = sv_fixedRoute v \<and>
                         (sv_fixedRoute v = None \<longrightarrow> v' = v)) vs vs'"
proof (induction nows arbitrary: vs)
  case Nil
  then show ?case by (simp add: list_all2_conv_all_nth list_all_length)
next
  case (Cons now nows)
  from socket_tick_ok [OF Cons.prems, of now]
  obtain vs1 where t: "socket_tick now vs = Inr vs1"
    and r1: "list_all2 (\<lambda>v v'. socket_inv v' \<and> sv_fixedRoute v' = sv_fixedRoute v \<and>
                         (sv_fixedRoute v = None \<longrightarrow> v' = v)) vs vs1"
    by (auto simp add: list_all2_conv_all_nth)
  from r1 have "list_all socket_inv vs1"
    by (auto simp add: list_all2_conv_all_nth list_all_length)
  from Cons.IH [OF this] obtain vs' where r: "socket_run nows vs1 = Inr vs'"
    and r2: "list_all2 (\<lambda>v v'. socket_inv v' \<and> sv_fixedRoute v' = sv_fixedRoute v \<and>
                         (sv_fixedRoute v = None \<longrightarrow> v' = v)) vs1 vs'"
    by blast
  have "list_all2 (\<lambda>v v'. socket_inv v' \<and> sv_fixedRoute v' = sv_fixedRoute v \<and>
                         (sv_fixedRoute v = None \<longrightarrow> v' = v)) vs vs'"
    using r1 r2 by (auto simp add: list_all2_conv_all_nth)
  with t r show ?case by simp
qed

lemma socket_run_nonempty:
  assumes inv: "list_all socket_inv vs" and ne: "nows \<noteq> []"
  shows "\<exists>vs'. socket_run nows vs = Inr vs' \<and> length vs' = length vs \<and>
     (\<forall>i < length vs. \<forall>r. sv_fixedRoute (vs ! i) = Some r \<and> 2 \<le> length r \<longrightarrow>
         sv_progress (vs' ! i) = NaN \<and>
         sv_location (vs' ! i) = \<lparr>js_latitude = NaN, js_longitude = NaN\<rparr> \<and>
         sv_currentRouteIndex (vs' ! i) = 0)"
proof -
  from ne obtain ns n where nows: "nows = ns @ [n]" by (metis rev_exhaust)
  from socket_run_ok [OF inv, of ns]
  obtain vs1 where a: "socket_run ns vs = Inr vs1"
    and r1: "list_all2 (\<lambda>v v'. socket_inv v' \<and> sv_fixedRoute v' = sv_fixedRoute v \<and>
                         (sv_fixedRoute v = None \<longrightarrow> v' = v)) vs vs1"
    by blast
  from r1 have inv1: "list_all socket_inv vs1"
    by (auto simp add: list_all2_conv_all_nth list_all_length)
  from socket_tick_ok [OF inv1, of n]
  obtain vs' where b: "socket_tick n vs1 = Inr vs'"
    and r2: "list_all2 (\<lambda>v v'. socket_inv v' \<and> sv_fixedRoute v' = sv_fixedRoute v \<and>
      (sv_fixedRoute v = None \<longrightarrow> v' = v) \<and>
      (\<forall>r. sv_fixedRoute v = Some r \<and> 2 \<le> length r \<longrightarrow>
         sv_progress v' = NaN \<and>
         sv_location v' = \<lparr>js_latitude = NaN, js_longitude = NaN\<rparr>)) vs1 vs'"
    by blast
  have run: "socket_run nows vs = Inr vs'"
    by (simp add: nows socket_run_append a b)
  have l: "length vs1 = length vs" "length vs' = length vs1"
    using r1 r2 by (auto dest: list_all2_lengthD)
  have "sv_progress (vs' ! i) = NaN \<and>
         sv_location (vs' ! i) = \<lparr>js_latitude = NaN, js_longitude = NaN\<rparr> \<and>
         sv_currentRouteIndex (vs' ! i) = 0"
    if i: "i < length vs" and fr: "sv_fixedRoute (vs ! i) = Some r" "2 \<le> length r" for i r
  proof -
    have "sv_fixedRoute (vs1 ! i) = Some r"
      using r1 i fr(1) by (auto simp add: list_all2_conv_all_nth)
    moreover have "socket_inv (vs' ! i) \<and>
      (\<forall>r. sv_fixedRoute (vs1 ! i) = Some r \<and> 2 \<le> length r \<longrightarrow>
         sv_progress (vs' ! i) = NaN \<and>
         sv_location (vs' ! i) = \<lparr>js_latitude = NaN, js_longitude = NaN\<rparr>)"
      using r2 i l by (auto simp add: list_all2_conv_all_nth)
    ultimately show ?thesis using fr(2) by (auto simp add: socket_inv_def)
  qed
  then show ?thesis using run l by auto
qed

lemma socket_resolve_Inr:
  "\<exists>vs0. socket_resolve resolved vehicles = Inr vs0 \<and> length vs0 = length vehicles \<and>
     (\<forall>j < length vehicles. socket_init_vehicle (resolved j) (vehicles ! j) = Inr (vs0 ! j))"
proof -
  have "\<exists>ys. map_or_throw (\<lambda>i. socket_init_vehicle (resolved i) (vehicles ! i)) [0..<length vehicles] = Inr ys \<and>
     list_all2 (\<lambda>i y. socket_init_vehicle (resolved i) (vehicles ! i) = Inr y) [0..<length vehicles] ys"
    by (rule map_or_throw_rel) (simp add: socket_init_vehicle_Inr)
  then obtain ys where ys: "socket_resolve resolved vehicles = Inr ys"
    "list_all2 (\<lambda>i y. socket_init_vehicle (resolved i) (vehicles ! i) = Inr y) [0..<length vehicles] ys"
    by (auto simp add: socket_resolve_def)
  from ys(2) have "length ys = length vehicles"
    by (auto dest: list_all2_lengthD)
  moreover from ys(2) have "\<forall>j < length vehicles. socket_init_vehicle (resolved j) (vehicles ! j) = Inr (ys ! j)"
    by (auto simp add: list_all2_conv_all_nth)
  ultimately show ?thesis using ys(1) by blast
qed

text \<open>
  Claim C8. In the socket utility, base vehicles have no \<open>progress\<close> field and
  \<open>startVehicleSimulation\<close> adds none: every vehicle it resolves has \<open>progress\<close>
  \<open>undefined\<close>, so that \<open>vehicle.progress += 0.0005\<close> gives \<open>NaN\<close>. After any positive
  number of ticks, every vehicle with a \<open>fixedRoute\<close> of length at least 2 has progress
  \<open>NaN\<close>, for which \<open>progress >= 1\<close> is false, and an emitted location whose latitude
  and longitude are \<open>NaN\<close>, which is no waypoint of its route.
\<close>

theorem socket_progress_never_initialised:
  "\<exists>vs0. socket_resolve resolved vehicles = Inr vs0 \<and> length vs0 = length vehicles \<and>
     (\<forall>v \<in> set vs0. sv_progress v = Undefined \<and> js_plus (sv_progress v) (Num 0.0005) = NaN) \<and>
     (\<forall>nows. nows \<noteq> [] \<longrightarrow>
        (\<exists>vs. socket_run nows vs0 = Inr vs \<and> length vs = length vs0 \<and>
           (\<forall>i < length vs0. \<forall>r. sv_fixedRoute (vs0 ! i) = Some r \<and> 2 \<le> length r \<longrightarrow>
              sv_progress (vs ! i) = NaN \<and> \<not> js_ge (sv_progress (vs ! i)) (Num 1) \<and>
              sv_location (vs ! i) = \<lparr>js_latitude = NaN, js_longitude = NaN\<rparr> \<and>
              (\<forall>w \<in> set r. \<not> at_waypoint (sv_location (vs ! i)) w))))"
proof -
  from socket_resolve_Inr [of resolved vehicles]
  obtain vs0 where vs0: "socket_resolve resolved vehicles = Inr vs0" "length vs0 = length vehicles"
    "\<forall>j < length vehicles. socket_init_vehicle (resolved j) (vehicles ! j) = Inr (vs0 ! j)"
    by blast
  have each: "socket_inv v \<and> sv_progress v = Undefined" if "v \<in> set vs0" for v
  proof -
    from that obtain j where "j < length vs0" "v = vs0 ! j" by (auto simp add: in_set_conv_nth)
    then have "socket_init_vehicle (resolved j) (vehicles ! j) = Inr v" using vs0(2,3) by simp
    then show ?thesis by (rule socket_init_vehicle_inv)
  qed
  then have inv: "list_all socket_inv vs0" by (simp add: list_all_iff)
  have p: "\<forall>v \<in> set vs0. sv_progress v = Undefined \<and> js_plus (sv_progress v) (Num 0.0005) = NaN"
    using each by simp
  have "\<exists>vs. socket_run nows vs0 = Inr vs \<and> length vs = length vs0 \<and>
           (\<forall>i < length vs0. \<forall>r. sv_fixedRoute (vs0 ! i) = Some r \<and> 2 \<le> length r \<longrightarrow>
              sv_progress (vs ! i) = NaN \<and> \<not> js_ge (sv_progress (vs ! i)) (Num 1) \<and>
              sv_location (vs ! i) = \<lparr>js_latitude = NaN, js_longitude = NaN\<rparr> \<and>
              (\<forall>w \<in> set r. \<not> at_waypoint (sv_location (vs ! i)) w))"
    if "nows \<noteq> []" for nows
  proof -
    from socket_run_nonempty [OF inv that]
    obtain vs where vs: "socket_run nows vs0 = Inr vs" "length vs = length vs0"
      "\<forall>i < length vs0. \<forall>r. sv_fixedRoute (vs0 ! i) = Some r \<and> 2 \<le> length r \<longrightarrow>
         sv_progress (vs ! i) = NaN \<and>
         sv_location (vs ! i) = \<lparr>js_latitude = NaN, js_longitude = NaN\<rparr> \<and>
         sv_currentRouteIndex (vs ! i) = 0"
      by blast
    from vs(3) have "\<forall>i < length vs0. \<forall>r. sv_fixedRoute (vs0 ! i) = Some r \<and> 2 \<le> length r \<longrightarrow>
              sv_progress (vs ! i) = NaN \<and> \<not> js_ge (sv_progress (vs ! i)) (Num 1) \<and>
              sv_location (vs ! i) = \<lparr>js_latitude = NaN, js_longitude = NaN\<rparr> \<and>
              (\<forall>w \<in> set r. \<not> at_waypoint (sv_location (vs ! i)) w)"
      by (simp add: at_waypoint_def)
    with vs(1,2) show ?thesis by blast
  qed
  with vs0(1,2) p show ?thesis by blast
qed

theorem socket_progress_never_initialised_witness:
  "\<exists>vs0 vs.
     socket_resolve (\<lambda>i. Inr example_info) [example_vehicle] = Inr vs0 \<and>
     sv_progress (vs0 ! 0) = Undefined \<and>
     sv_fixedRoute (vs0 ! 0) = Some [\<lparr>latitude = 0, longitude = 0\<rparr>, \<lparr>latitude = 0, longitude = 1\<rparr>,
                                      \<lparr>latitude = 1, longitude = 1\<rparr>] \<and>
     socket_run [''t1'', ''t2''] vs0 = Inr vs \<and>
     sv_progress (vs ! 0) = NaN \<and>
     sv_location (vs ! 0) = \<lparr>js_latitude = NaN, js_longitude = NaN\<rparr> \<and>
     \<not> at_waypoint (sv_location (vs ! 0)) \<lparr>latitude = 0, longitude = 1\<rparr>"
proof -
  let ?r = "[\<lparr>latitude = 0, longitude = 0\<rparr>, \<lparr>latitude = 0, longitude = 1\<rparr>,
             \<lparr>latitude = 1, longitude = 1\<rparr>] :: coord list"
  from socket_progress_never_initialised [of "\<lambda>i. Inr example_info" "[example_vehicle]"]
  obtain vs0 where vs0: "socket_resolve (\<lambda>i. Inr example_info) [example_vehicle] = Inr vs0"
    "length vs0 = length [example_vehicle]"
    "\<forall>v \<in> set vs0. sv_progress v = Undefined \<and> js_plus (sv_progress v) (Num 0.0005) = NaN"
    "\<forall>nows. nows \<noteq> [] \<longrightarrow>
        (\<exists>vs. socket_run nows vs0 = Inr vs \<and> length vs = length vs0 \<and>
           (\<forall>i < length vs0. \<forall>r. sv_fixedRoute (vs0 ! i) = Some r \<and> 2 \<le> length r \<longrightarrow>
              sv_progress (vs ! i) = NaN \<and> \<not> js_ge (sv_progress (vs ! i)) (Num 1) \<and>
              sv_location (vs ! i) = \<lparr>js_latitude = NaN, js_longitude = NaN\<rparr> \<and>
              (\<forall>w \<in> set r. \<not> at_waypoint (sv_location (vs ! i)) w)))"
    by blast
  have "sv_fixedRoute (projr (socket_resolve (\<lambda>i. Inr example_info) [example_vehicle]) ! 0) = Some ?r"
    by (simp add: socket_resolve_def socket_init_vehicle_def socket_try_def example_info_def)
  then have fr: "sv_fixedRoute (vs0 ! 0) = Some ?r" unfolding vs0(1) by simp
  have i0: "0 < length vs0" using vs0(2) by simp
  then have p0: "sv_progress (vs0 ! 0) = Undefined" using vs0(3) by (simp add: nth_mem del: in_set_conv_nth)
  have "[''t1'', ''t2''] \<noteq> []" by simp
  with vs0(4) obtain vs where vs: "socket_run [''t1'', ''t2''] vs0 = Inr vs"
    "\<forall>i < length vs0. \<forall>r. sv_fixedRoute (vs0 ! i) = Some r \<and> 2 \<le> length r \<longrightarrow>
              sv_progress (vs ! i) = NaN \<and> \<not> js_ge (sv_progress (vs ! i)) (Num 1) \<and>
              sv_location (vs ! i) = \<lparr>js_latitude = NaN, js_longitude = NaN\<rparr> \<and>
              (\<forall>w \<in> set r. \<not> at_waypoint (sv_location (vs ! i)) w)"
    by blast
  have "2 \<le> length ?r" by simp
  with vs(2) i0 fr have "sv_progress (vs ! 0) = NaN \<and>
              sv_location (vs ! 0) = \<lparr>js_latitude = NaN, js_longitude = NaN\<rparr> \<and>
              (\<forall>w \<in> set ?r. \<not> at_waypoint (sv_location (vs ! 0)) w)"
    by blast
  then have "sv_progress (vs ! 0) = NaN \<and>
     sv_location (vs ! 0) = \<lparr>js_latitude = NaN, js_longitude = NaN\<rparr> \<and>
     \<not> at_waypoint (sv_location (vs ! 0)) \<lparr>latitude = 0, longitude = 1\<rparr>"
    by (simp add: at_waypoint_def)
  with vs0(1) p0 fr vs(1) show ?thesis by blast
qed


subsection \<open>Failed route resolution\<close>











subsection \<open>Invalid route data at tick time\<close>

text \<open>
  Claim C6, as stated, fails in the client vehicle service: a vehicle at index 0 with
  direction -1 (next index -1) and progress 0.5 is not returned unchanged; its direction
  becomes 1 and its progress 0.
\<close>

theorem invalid_next_index_counterexample:
  "currentRouteIndex (scenario_vehicle\<lparr>direction := - 1, progress := 1 / 2\<rparr>) +
     direction (scenario_vehicle\<lparr>direction := - 1, progress := 1 / 2\<rparr>) < 0 \<and>
   service_tick_vehicle PROGRESS_STEP ''t1'' (scenario_vehicle\<lparr>direction := - 1, progress := 1 / 2\<rparr>) =
     Inr (scenario_vehicle\<lparr>direction := 1, progress := 0\<rparr>) \<and>
   scenario_vehicle\<lparr>direction := 1, progress := 0\<rparr> \<noteq>
     scenario_vehicle\<lparr>direction := - 1, progress := 1 / 2\<rparr>"
  by (simp add: service_tick_vehicle_def scenario_vehicle_def)

text \<open>
  Claim C6, amended. A vehicle without a route, with a route shorter than 2, or with a
  next index outside \<open>[0, length - 1]\<close> never makes the tick throw. The server returns
  it unchanged. The client vehicle service returns it unchanged when it has no route or a
  route shorter than 2, and otherwise returns it with the direction reversed, the index
  set to \<open>length - 1\<close> if the direction was 1 and to 0 if not, and progress 0, every other
  field unchanged. In both, the other vehicles of the collection are ticked as they are
  without it.
\<close>

theorem invalid_route_data_does_not_throw:
  assumes "fixedRoute v = None \<or>
           (\<exists>r. fixedRoute v = Some r \<and>
                (length r < 2 \<or> currentRouteIndex v + direction v < 0 \<or>
                 int (length r) - 1 < currentRouteIndex v + direction v))"
  shows "server_tick_vehicle step now v = Inr v \<and>
     server_tick step now (xs @ v # ys) =
       (case server_tick step now (xs @ ys) of
          Inl e \<Rightarrow> Inl e
        | Inr zs \<Rightarrow> Inr (take (length xs) zs @ v # drop (length xs) zs)) \<and>
     (\<exists>v'. service_tick_vehicle step now v = Inr v' \<and>
        (fixedRoute v = None \<or> (\<exists>r. fixedRoute v = Some r \<and> length r < 2) \<longrightarrow> v' = v) \<and>
        (\<forall>r. fixedRoute v = Some r \<and> 2 \<le> length r \<longrightarrow>
           v' = v\<lparr>direction := direction v * (- 1),
                  currentRouteIndex := (if direction v = 1 then int (length r) - 1 else 0),
                  progress := 0\<rparr>) \<and>
        service_tick step now (xs @ v # ys) =
          (case service_tick step now (xs @ ys) of
             Inl e \<Rightarrow> Inl e
           | Inr zs \<Rightarrow> Inr (take (length xs) zs @ v' # drop (length xs) zs)))"
proof -
  have s: "server_tick_vehicle step now v = Inr v"
    using assms by (auto simp add: server_tick_vehicle_def Let_def)
  have s_all: "server_tick step now (xs @ v # ys) =
       (case server_tick step now (xs @ ys) of
          Inl e \<Rightarrow> Inl e
        | Inr zs \<Rightarrow> Inr (take (length xs) zs @ v # drop (length xs) zs))"
    unfolding server_tick_def using s by (rule map_or_throw_insert)
  have "\<exists>v'. service_tick_vehicle step now v = Inr v' \<and>
    (fixedRoute v = None \<or> (\<exists>r. fixedRoute v = Some r \<and> length r < 2) \<longrightarrow> v' = v) \<and>
    (\<forall>r. fixedRoute v = Some r \<and> 2 \<le> length r \<longrightarrow>
           v' = v\<lparr>direction := direction v * (- 1),
                  currentRouteIndex := (if direction v = 1 then int (length r) - 1 else 0),
                  progress := 0\<rparr>)"
  proof (cases "fixedRoute v")
    case None
    then show ?thesis by (simp add: service_tick_vehicle_def)
  next
    case (Some r)
    show ?thesis
    proof (cases "length r < 2")
      case True
      then have "\<not> 1 < length r" by simp
      then have "service_tick_vehicle step now v = Inr v"
        using Some by (simp add: service_tick_vehicle_def)
      then show ?thesis using Some True by simp
    next
      case False
      then have l: "1 < length r" by simp
      from assms Some False
      have "currentRouteIndex v + direction v < 0 \<or>
            int (length r) - 1 < currentRouteIndex v + direction v"
        by auto
      then have "service_tick_vehicle step now v =
          Inr (v\<lparr>direction := direction v * (- 1),
                  currentRouteIndex := (if direction v = 1 then int (length r) - 1 else 0),
                  progress := 0\<rparr>)"
      proof
        assume "currentRouteIndex v + direction v < 0"
        then have "\<not> 0 \<le> currentRouteIndex v + direction v" by simp
        then show ?thesis using Some l by (simp add: service_tick_vehicle_def Let_def)
      next
        assume "int (length r) - 1 < currentRouteIndex v + direction v"
        then have "\<not> currentRouteIndex v + direction v < int (length r)" by simp
        then show ?thesis using Some l by (simp add: service_tick_vehicle_def Let_def)
      qed
      then show ?thesis using Some False by simp
    qed
  qed
  then obtain v' where c: "service_tick_vehicle step now v = Inr v'"
    "fixedRoute v = None \<or> (\<exists>r. fixedRoute v = Some r \<and> length r < 2) \<longrightarrow> v' = v"
    "\<forall>r. fixedRoute v = Some r \<and> 2 \<le> length r \<longrightarrow>
           v' = v\<lparr>direction := direction v * (- 1),
                  currentRouteIndex := (if direction v = 1 then int (length r) - 1 else 0),
                  progress := 0\<rparr>"
    by blast
  have c_all: "service_tick step now (xs @ v # ys) =
          (case service_tick step now (xs @ ys) of
             Inl e \<Rightarrow> Inl e
           | Inr zs \<Rightarrow> Inr (take (length xs) zs @ v' # drop (length xs) zs))"
    unfolding service_tick_def using c(1) by (rule map_or_throw_insert)
  show ?thesis using s s_all c c_all by blast
qed

theorem invalid_route_data_does_not_throw_witness:
  "server_tick_vehicle PROGRESS_STEP ''t1'' (scenario_vehicle\<lparr>direction := - 1\<rparr>) =
     Inr (scenario_vehicle\<lparr>direction := - 1\<rparr>) \<and>
   service_tick_vehicle PROGRESS_STEP ''t1'' (scenario_vehicle\<lparr>direction := - 1\<rparr>) =
     Inr (scenario_vehicle\<lparr>direction := 1\<rparr>) \<and>
   (\<exists>w. server_tick PROGRESS_STEP ''t1'' [scenario_vehicle\<lparr>direction := - 1\<rparr>, scenario_vehicle] =
      Inr [scenario_vehicle\<lparr>direction := - 1\<rparr>, w] \<and> progress w = PROGRESS_STEP)"
proof -
  let ?v = "scenario_vehicle\<lparr>direction := - 1\<rparr>"
  have h: "fixedRoute ?v = None \<or>
           (\<exists>r. fixedRoute ?v = Some r \<and>
                (length r < 2 \<or> currentRouteIndex ?v + direction ?v < 0 \<or>
                 int (length r) - 1 < currentRouteIndex ?v + direction ?v))"
    by (simp add: scenario_vehicle_def)
  from invalid_route_data_does_not_throw
         [where v = "?v" and step = PROGRESS_STEP and now = "''t1''" and xs = "[]"
            and ys = "[scenario_vehicle]", OF h]
  obtain v' where a: "server_tick_vehicle PROGRESS_STEP ''t1'' ?v = Inr ?v"
    "server_tick PROGRESS_STEP ''t1'' ([] @ ?v # [scenario_vehicle]) =
       (case server_tick PROGRESS_STEP ''t1'' ([] @ [scenario_vehicle]) of
          Inl e \<Rightarrow> Inl e
        | Inr zs \<Rightarrow> Inr (take (length ([] :: unit sim_vehicle list)) zs @ ?v # drop (length ([] :: unit sim_vehicle list)) zs))"
    "service_tick_vehicle PROGRESS_STEP ''t1'' ?v = Inr v'"
    "\<forall>r. fixedRoute ?v = Some r \<and> 2 \<le> length r \<longrightarrow>
           v' = ?v\<lparr>direction := direction ?v * (- 1),
                  currentRouteIndex := (if direction ?v = 1 then int (length r) - 1 else 0),
                  progress := 0\<rparr>"
    by blast
  from a(4) have "v' = scenario_vehicle\<lparr>direction := 1\<rparr>"
    by (simp add: scenario_vehicle_def)
  with a(3) have b: "service_tick_vehicle PROGRESS_STEP ''t1'' ?v = Inr (scenario_vehicle\<lparr>direction := 1\<rparr>)"
    by simp
  have "\<exists>w. server_tick PROGRESS_STEP ''t1'' [scenario_vehicle] = Inr [w] \<and> progress w = PROGRESS_STEP"
    by (simp add: server_tick_def server_tick_vehicle_def scenario_vehicle_def nth_js_def
        PROGRESS_STEP_def Let_def)
  then obtain w where w: "server_tick PROGRESS_STEP ''t1'' [scenario_vehicle] = Inr [w]"
    "progress w = PROGRESS_STEP" by blast
  from a(2) w have "server_tick PROGRESS_STEP ''t1'' [?v, scenario_vehicle] = Inr [?v, w]"
    by simp
  with a(1) b w(2) show ?thesis by blast
qed

section \<open>Starting twice\<close>

text \<open>
  When the second call comes after the first one has set its interval, the stop at its
  beginning clears that interval and exactly one is live afterwards.
\<close>

lemma start_twice_sequential:
  "run_events [StartCall, StartResume (Inr vs1), StartCall, StartResume (Inr vs2)] initial_simulator =
     \<lparr>simulatedVehicles = vs2, simulationInterval = Some 2, timers = [2], issued = 2\<rparr>"
  by (simp add: start_call_def start_resume_def stopVehicleSimulation_def clearInterval_def
      setInterval_def initial_simulator_def Let_def)

lemma start_after_start_single_timer:
  assumes "timers st = (case simulationInterval st of None \<Rightarrow> [] | Some h \<Rightarrow> [h])"
  shows "timers (run_events [StartCall, StartResume (Inr vs)] st) = [issued st + 1] \<and>
         simulationInterval (run_events [StartCall, StartResume (Inr vs)] st) = Some (issued st + 1) \<and>
         simulatedVehicles (run_events [StartCall, StartResume (Inr vs)] st) = vs"
  using assms
  by (simp add: start_call_def start_resume_def stopVehicleSimulation_def clearInterval_def
      setInterval_def Let_def split: option.splits)

text \<open>
  Claim C1, evaluated where it fails: \<open>startVehicleSimulation\<close> is called twice, the
  second time before the route resolutions of the first call have completed. Both calls
  stop when no interval is set yet, and both continuations set one: two intervals are
  live, the handle of the first is overwritten, and a later stop clears only the second.
\<close>

theorem start_twice_interleaved_leaks_timer:
  "run_events [StartCall, StartCall, StartResume (Inr vs1), StartResume (Inr vs2)]
     initial_simulator =
     \<lparr>simulatedVehicles = vs2, simulationInterval = Some 2, timers = [1, 2], issued = 2\<rparr> \<and>
   timers (run_events [StartCall, StartCall, StartResume (Inr vs1), StartResume (Inr vs2), Stop]
             initial_simulator) = [1]"
  by (simp add: start_call_def start_resume_def stopVehicleSimulation_def clearInterval_def
      setInterval_def initial_simulator_def Let_def)

end
